theory Spec2Isabelle
  imports Main
begin

section \<open>Values exchanged with the bridge extension\<close>

text \<open>
  Every payload of the bridge protocol is the result of \<^verbatim>\<open>json.loads\<close>: a Python
  value built from None, booleans, integers, strings, lists and dictionaries. A
  dictionary is an association list whose first binding of a key is the binding
  (\<open>map_of\<close>). Floating-point numbers are left out of the model.
\<close>

datatype json =
    JNull
  | JBool bool
  | JInt int
  | JStr string
  | JList "json list"
  | JObj "(string \<times> json) list"

text \<open>
  The exceptions of the program. \<open>PyException\<close> is the plain \<^verbatim>\<open>Exception(msg)\<close>
  that \<^verbatim>\<open>bridge_controller.py\<close> raises itself, \<open>BrowserError\<close> the one raised by the
  action wrappers of \<^verbatim>\<open>enhanced_actions.py\<close>; \<open>AttributeError\<close>, \<open>KeyError\<close> and
  \<open>TypeError\<close> are raised by the interpreter on a value of the wrong shape, and
  \<open>ValidationError\<close> by the constructor of a validated model class on a field
  value it does not accept.
\<close>

datatype error =
    PyException string
  | BrowserError string
  | AttributeError
  | KeyError string
  | TypeError
  | ValidationError

definition ebind :: "error + 'a \<Rightarrow> ('a \<Rightarrow> error + 'b) \<Rightarrow> error + 'b" where
  "ebind m f = (case m of Inl e \<Rightarrow> Inl e | Inr v \<Rightarrow> f v)"

text \<open>Python truthiness, as used by \<^verbatim>\<open>if x\<close>, \<^verbatim>\<open>x or y\<close> and \<^verbatim>\<open>x and y\<close>.\<close>

fun truthy :: "json \<Rightarrow> bool" where
  "truthy JNull = False"
| "truthy (JBool b) = b"
| "truthy (JInt n) = (n \<noteq> 0)"
| "truthy (JStr s) = (s \<noteq> [])"
| "truthy (JList xs) = (xs \<noteq> [])"
| "truthy (JObj kvs) = (kvs \<noteq> [])"

text \<open>\<^verbatim>\<open>x or y\<close> and \<^verbatim>\<open>x and y\<close> return one of their operands.\<close>

definition py_or :: "json \<Rightarrow> json \<Rightarrow> json" where
  "py_or x y = (if truthy x then x else y)"

definition py_and :: "json \<Rightarrow> json \<Rightarrow> json" where
  "py_and x y = (if truthy x then y else x)"

text \<open>
  \<^verbatim>\<open>d.get(k, default)\<close>: only a dictionary has the method; on any other value the
  attribute lookup raises AttributeError.
\<close>

fun get_default :: "(string \<times> json) list \<Rightarrow> string \<Rightarrow> json \<Rightarrow> json" where
  "get_default [] k d = d"
| "get_default ((k', v) # kvs) k d = (if k' = k then v else get_default kvs k d)"

fun py_get :: "json \<Rightarrow> string \<Rightarrow> json \<Rightarrow> error + json" where
  "py_get (JObj kvs) k d = Inr (get_default kvs k d)"
| "py_get _ k d = Inl AttributeError"

text \<open>\<^verbatim>\<open>d[k]\<close> with a string key: KeyError on a dictionary without the key,
  TypeError on every other value.\<close>

fun py_item :: "json \<Rightarrow> string \<Rightarrow> error + json" where
  "py_item (JObj kvs) k = (case map_of kvs k of None \<Rightarrow> Inl (KeyError k) | Some v \<Rightarrow> Inr v)"
| "py_item _ k = Inl TypeError"

text \<open>\<^verbatim>\<open>len(x)\<close>: TypeError on None, booleans and integers.\<close>

fun py_len :: "json \<Rightarrow> error + nat" where
  "py_len (JStr s) = Inr (length s)"
| "py_len (JList xs) = Inr (length xs)"
| "py_len (JObj kvs) = Inr (length kvs)"
| "py_len _ = Inl TypeError"

text \<open>\<^verbatim>\<open>for x in v\<close>: a list yields its items, a string its characters, a
  dictionary its keys; the other values are not iterable.\<close>

fun py_iter :: "json \<Rightarrow> error + json list" where
  "py_iter (JList xs) = Inr xs"
| "py_iter (JStr s) = Inr (map (\<lambda>c. JStr [c]) s)"
| "py_iter (JObj kvs) = Inr (map (\<lambda>kv. JStr (fst kv)) kvs)"
| "py_iter _ = Inl TypeError"


section \<open>BridgeController: the command/response correlator\<close>

text \<open>
  An entry of \<^verbatim>\<open>pending_commands\<close>: the \<^verbatim>\<open>asyncio.Event\<close> (set or not) and the
  result slot.
\<close>

record waiter =
  event :: bool
  result :: json

datatype websocket = Websocket

text \<open>
  The controller object. \<open>sent\<close> collects the envelopes written with
  \<^verbatim>\<open>ws.send\<close>; a frame is \<open>None\<close> when \<^verbatim>\<open>json.loads\<close> rejects it.
\<close>

record bridge_controller =
  connected :: bool
  ws :: "websocket option"
  pending_commands :: "string \<rightharpoonup> waiter"
  sent :: "json list"

type_synonym frame = "json option"

text \<open>\<^verbatim>\<open>cmd_id in self.pending_commands\<close>: the keys are strings; a list or a
  dictionary is unhashable and raises TypeError.\<close>

fun in_pending :: "json \<Rightarrow> (string \<rightharpoonup> waiter) \<Rightarrow> error + bool" where
  "in_pending (JStr s) p = Inr (p s \<noteq> None)"
| "in_pending (JList xs) p = Inl TypeError"
| "in_pending (JObj kvs) p = Inl TypeError"
| "in_pending _ p = Inr False"

fun key_of :: "json \<Rightarrow> string" where
  "key_of (JStr s) = s"
| "key_of _ = []"

text \<open>\<^verbatim>\<open>BridgeController._handle_message\<close>.\<close>

definition handle_message :: "json \<Rightarrow> bridge_controller \<Rightarrow> error + bridge_controller" where
  "handle_message data c =
     ebind (py_get data ''type'' JNull) (\<lambda>msg_type.
       if msg_type = JStr ''ready'' then Inr c
       else if msg_type = JStr ''response'' then
         ebind (py_get data ''id'' JNull) (\<lambda>cmd_id.
           ebind (in_pending cmd_id (pending_commands c)) (\<lambda>present.
             if present then
               ebind (py_get data ''result'' JNull) (\<lambda>r.
                 Inr (c\<lparr>pending_commands :=
                   (pending_commands c)(key_of cmd_id \<mapsto> \<lparr>event = True, result = r\<rparr>)\<rparr>))
             else Inr c))
       else if msg_type = JStr ''error'' then
         ebind (py_get data ''error'' JNull) (\<lambda>_. Inr c)
       else Inr c)"

text \<open>
  The body of the receive loop of \<^verbatim>\<open>start_server\<close>: invalid JSON and every
  exception of the handling are logged and the loop goes on.
\<close>

definition on_frame :: "frame \<Rightarrow> bridge_controller \<Rightarrow> bridge_controller" where
  "on_frame f c =
     (case f of
        None \<Rightarrow> c
      | Some data \<Rightarrow>
          (case py_get data ''type'' (JStr ''unknown'') of
             Inl _ \<Rightarrow> c
           | Inr _ \<Rightarrow> (case handle_message data c of Inl _ \<Rightarrow> c | Inr c' \<Rightarrow> c')))"

definition command_envelope :: "string \<Rightarrow> string \<Rightarrow> json \<Rightarrow> json" where
  "command_envelope cmd_id method params =
     JObj [(''type'', JStr ''command''), (''id'', JStr cmd_id),
           (''command'', JObj [(''method'', JStr method), (''params'', params)])]"

text \<open>
  \<^verbatim>\<open>BridgeController.send_command\<close>. \<open>cmd_id\<close> is the fresh
  \<^verbatim>\<open>str(uuid.uuid4())\<close>; \<open>send_failure\<close> is the exception of serialising and
  writing the envelope (\<^verbatim>\<open>ws.send(json.dumps(command))\<close>), if it raises. The thirty seconds
  themselves are not part of the model; the order of what happens during the
  wait is. \<open>frames\<close> are the inbound frames that the receive loop handles while the
  sender is suspended in \<^verbatim>\<open>asyncio.wait_for\<close> and the deadline has not fired,
  up to the moment the sender resumes or the deadline fires. When the event is set
  by then, the sender resumes with the result slot as the last of these frames
  left it. Otherwise the deadline fires with the event unset and
  \<^verbatim>\<open>wait_for\<close> raises \<^verbatim>\<open>asyncio.TimeoutError\<close>, whatever is handled afterwards:
  \<open>overdue\<close> are the frames that the receive loop handles after the deadline has
  fired and before the sender resumes; they find the waiter still registered.
\<close>

definition send_command ::
  "bridge_controller \<Rightarrow> string \<Rightarrow> string \<Rightarrow> json \<Rightarrow> error option \<Rightarrow> frame list
     \<Rightarrow> frame list \<Rightarrow> (error + json) \<times> bridge_controller" where
  "send_command c cmd_id method params send_failure frames overdue =
     (if \<not> connected c \<or> ws c = None then
        (Inl (PyException ''Bridge extension not connected''), c)
      else
        let c1 = c\<lparr>pending_commands :=
                    (pending_commands c)(cmd_id \<mapsto> \<lparr>event = False, result = JNull\<rparr>)\<rparr>
        in (case send_failure of
              Some e \<Rightarrow> (Inl e, c1\<lparr>pending_commands := (pending_commands c1)(cmd_id := None)\<rparr>)
            | None \<Rightarrow>
                let c2 = c1\<lparr>sent := sent c1 @ [command_envelope cmd_id method params]\<rparr>;
                    c3 = foldl (\<lambda>s f. on_frame f s) c2 frames
                in (case pending_commands c3 cmd_id of
                      None \<Rightarrow> (Inl (KeyError cmd_id), c3)
                    | Some w \<Rightarrow>
                        if event w then
                          (Inr (result w),
                           c3\<lparr>pending_commands := (pending_commands c3)(cmd_id := None)\<rparr>)
                        else
                          let c4 = foldl (\<lambda>s f. on_frame f s) c3 overdue
                          in (Inl (PyException ''Command timeout''),
                              c4\<lparr>pending_commands :=
                                   (pending_commands c4)(cmd_id := None)\<rparr>))))"

text \<open>A frame that is a response carrying the id \<open>cmd_id\<close>.\<close>

definition is_response_for :: "string \<Rightarrow> frame \<Rightarrow> bool" where
  "is_response_for cmd_id f =
     (case f of
        None \<Rightarrow> False
      | Some data \<Rightarrow>
          py_get data ''type'' JNull = Inr (JStr ''response'')
          \<and> py_get data ''id'' JNull = Inr (JStr cmd_id))"

definition is_connected :: "bridge_controller \<Rightarrow> bool" where
  "is_connected c = (connected c \<and> ws c \<noteq> None)"


text \<open>The result payload that a response frame carries (\<^verbatim>\<open>data.get('result')\<close>).\<close>

definition response_result :: "frame \<Rightarrow> json" where
  "response_result f =
     (case f of
        None \<Rightarrow> JNull
      | Some data \<Rightarrow> (case py_get data ''result'' JNull of Inl _ \<Rightarrow> JNull | Inr r \<Rightarrow> r))"

text \<open>Concrete controller states and frames used to exercise the correlator.\<close>

definition idle_controller :: bridge_controller where
  "idle_controller =
     \<lparr>connected = True, ws = Some Websocket, pending_commands = Map.empty, sent = []\<rparr>"


definition response_frame :: "string \<Rightarrow> json \<Rightarrow> frame" where
  "response_frame cmd_id r =
     Some (JObj [(''type'', JStr ''response''), (''id'', JStr cmd_id), (''result'', r)])"


section \<open>Python equality and string formatting\<close>

text \<open>\<^verbatim>\<open>a == b\<close> on protocol values: booleans compare as the integers 0 and 1, lists
  item by item, dictionaries binding by binding; values of different kinds differ.\<close>

fun py_eq :: "json \<Rightarrow> json \<Rightarrow> bool" where
  "py_eq JNull JNull = True"
| "py_eq (JBool a) (JBool b) = (a = b)"
| "py_eq (JBool a) (JInt n) = (n = (if a then 1 else 0))"
| "py_eq (JInt n) (JBool a) = (n = (if a then 1 else 0))"
| "py_eq (JInt m) (JInt n) = (m = n)"
| "py_eq (JStr s) (JStr t) = (s = t)"
| "py_eq (JList xs) (JList ys) = list_all2 py_eq xs ys"
| "py_eq (JObj xs) (JObj ys) =
     (length xs = length ys \<and>
      list_all (\<lambda>kv. case map_of ys (fst kv) of None \<Rightarrow> False
                                                 | Some v' \<Rightarrow> py_eq (snd kv) v') xs)"
| "py_eq _ _ = False"

fun show_nat :: "nat \<Rightarrow> string" where
  "show_nat n =
     (if n < 10 then [''0123456789'' ! n]
      else show_nat (n div 10) @ [''0123456789'' ! (n mod 10)])"

declare show_nat.simps [simp del]

definition show_int :: "int \<Rightarrow> string" where
  "show_int i = (if i < 0 then CHR ''-'' # show_nat (nat (- i)) else show_nat (nat i))"


section \<open>The bridge as seen by a session\<close>

text \<open>
  A session awaits \<^verbatim>\<open>self.bridge.send_command(method, params)\<close> and either gets
  the result payload or the exception of the call; \<open>link_connected\<close> is
  \<^verbatim>\<open>self.bridge.is_connected()\<close>.
\<close>

record bridge_link =
  link_connected :: bool
  call :: "string \<Rightarrow> json \<Rightarrow> error + json"

definition navigate :: "bridge_link \<Rightarrow> json \<Rightarrow> error + json" where
  "navigate b u = call b ''navigate'' (JObj [(''url'', u)])"

text \<open>\<^verbatim>\<open>BridgeController.click\<close>: by element index when one is given (not None),
  by coordinates otherwise.\<close>

definition click :: "bridge_link \<Rightarrow> json \<Rightarrow> json \<Rightarrow> json \<Rightarrow> error + json" where
  "click b cx cy index =
     (if index \<noteq> JNull then call b ''click'' (JObj [(''index'', index)])
      else call b ''click'' (JObj [(''x'', cx), (''y'', cy)]))"

definition type_text :: "bridge_link \<Rightarrow> json \<Rightarrow> error + json" where
  "type_text b text = call b ''type'' (JObj [(''text'', text)])"

definition evaluate :: "bridge_link \<Rightarrow> string \<Rightarrow> error + json" where
  "evaluate b expression = call b ''evaluate'' (JObj [(''expression'', JStr expression)])"

definition get_dom :: "bridge_link \<Rightarrow> error + json" where
  "get_dom b = call b ''get_dom'' (JObj [])"

text \<open>The link of a controller on which the frames \<open>frames\<close> are handled during
  the wait of every command and none after its deadline, the fresh id being
  \<open>cmd_id\<close>.\<close>

definition link_of :: "bridge_controller \<Rightarrow> string \<Rightarrow> frame list \<Rightarrow> bridge_link" where
  "link_of c cmd_id frames =
     \<lparr>link_connected = is_connected c,
      call = (\<lambda>method params. fst (send_command c cmd_id method params None frames []))\<rparr>"


section \<open>Tab proxies\<close>

text \<open>
  The two page-like classes that the \<^verbatim>\<open>tabs\<close> property creates. \<open>tab_id\<close> is the
  attribute \<^verbatim>\<open>id\<close>, \<open>tab_url\<close> is \<^verbatim>\<open>url\<close>, \<open>tab_title\<close> is \<^verbatim>\<open>_title\<close> and
  \<open>tab_closed\<close> is \<^verbatim>\<open>_closed\<close>.
\<close>

datatype proxy_class = BridgePageProxy | CurrentPageProxy

record page_proxy =
  tab_class :: proxy_class
  tab_id :: json
  tab_url :: json
  tab_title :: json
  tab_closed :: bool

text \<open>
  What \<^verbatim>\<open>__eq__\<close> looks at in its argument: whether it has an attribute \<^verbatim>\<open>id\<close>
  and whether it has an attribute \<^verbatim>\<open>url\<close> (\<^verbatim>\<open>hasattr\<close>), and their values.
\<close>

record pyobject =
  attr_id :: "json option"
  attr_url :: "json option"

definition as_object :: "page_proxy \<Rightarrow> pyobject" where
  "as_object p = \<lparr>attr_id = Some (tab_id p), attr_url = Some (tab_url p)\<rparr>"

text \<open>\<^verbatim>\<open>BridgePageProxy.__eq__\<close>.\<close>

definition BridgePageProxy_eq :: "page_proxy \<Rightarrow> pyobject \<Rightarrow> bool" where
  "BridgePageProxy_eq self other =
     (case attr_id other of
        Some i \<Rightarrow> py_eq (tab_id self) i
      | None \<Rightarrow>
          (case attr_url other of
             Some u \<Rightarrow> py_eq (tab_url self) u
           | None \<Rightarrow> False))"

text \<open>\<^verbatim>\<open>CurrentPageProxy.__eq__\<close>.\<close>

definition CurrentPageProxy_eq :: "page_proxy \<Rightarrow> pyobject \<Rightarrow> bool" where
  "CurrentPageProxy_eq self other =
     (case attr_url other of
        Some u \<Rightarrow> py_eq (tab_url self) u
      | None \<Rightarrow> False)"

text \<open>\<^verbatim>\<open>a == b\<close> on two tab proxies: the method of the class of \<open>a\<close>.\<close>

definition proxy_eq :: "page_proxy \<Rightarrow> page_proxy \<Rightarrow> bool" where
  "proxy_eq a b =
     (case tab_class a of
        BridgePageProxy \<Rightarrow> BridgePageProxy_eq a (as_object b)
      | CurrentPageProxy \<Rightarrow> CurrentPageProxy_eq a (as_object b))"

definition is_closed :: "page_proxy \<Rightarrow> bool" where
  "is_closed p = tab_closed p"

text \<open>
  \<^verbatim>\<open>close\<close> of either class. It returns None in every case: the exception of
  \<^verbatim>\<open>send_command\<close> is caught and logged.
\<close>

definition close :: "bridge_link \<Rightarrow> page_proxy \<Rightarrow> page_proxy" where
  "close b p =
     (case tab_class p of
        BridgePageProxy \<Rightarrow>
          (case call b ''close_tab'' (JObj [(''tabId'', tab_id p)]) of
             Inl e \<Rightarrow> p
           | Inr r \<Rightarrow> p\<lparr>tab_closed := True\<rparr>)
      | CurrentPageProxy \<Rightarrow> p\<lparr>tab_closed := True\<rparr>)"

text \<open>The constructors of the two classes.\<close>

definition bridge_tab :: "json \<Rightarrow> json \<Rightarrow> json \<Rightarrow> page_proxy" where
  "bridge_tab i u t =
     \<lparr>tab_class = BridgePageProxy, tab_id = i, tab_url = u, tab_title = t,
      tab_closed = False\<rparr>"

definition current_tab :: "json \<Rightarrow> json \<Rightarrow> page_proxy" where
  "current_tab u t =
     \<lparr>tab_class = CurrentPageProxy, tab_id = JInt 1, tab_url = u, tab_title = t,
      tab_closed = False\<rparr>"


section \<open>The page model\<close>

text \<open>
  The classes of \<^verbatim>\<open>browser_use.dom\<close> and \<^verbatim>\<open>browser_use.browser.views\<close> that the
  session instantiates; they are declared outside the sources. \<^verbatim>\<open>PageInfo\<close> and
  \<^verbatim>\<open>TabInfo\<close> are validated models: their constructors convert every field to
  the declared type (integers for the ten fields of \<^verbatim>\<open>PageInfo\<close> and for
  \<^verbatim>\<open>page_id\<close>, strings for the url and the title of a tab) or raise
  \<^verbatim>\<open>ValidationError\<close>, so their records hold integers and strings.
  \<^verbatim>\<open>DOMElementNode\<close> and \<^verbatim>\<open>BrowserStateSummary\<close> are plain data classes and hold the
  values passed; the coordinate and viewport records of a node are kept the same
  way. A \<^verbatim>\<open>DOMElementNode\<close> built from a raw element has no children; the children
  of the root are kept in \<open>DOMTree\<close>, and \<open>parent\<close> tells whether the parent
  reference is None or the root.
\<close>

record Coordinates =
  coord_x :: json
  coord_y :: json

record CoordinateSet =
  top_left :: Coordinates
  top_right :: Coordinates
  bottom_left :: Coordinates
  bottom_right :: Coordinates
  center :: Coordinates
  set_width :: json
  set_height :: json

record ViewportInfo =
  scrollX :: json
  scrollY :: json
  info_width :: json
  info_height :: json

datatype parent_ref = NoParent | RootElement

record DOMElementNode =
  tag_name :: json
  xpath :: json
  attributes :: json
  is_visible :: json
  is_interactive :: json
  is_top_element :: json
  is_in_viewport :: json
  shadow_root :: json
  highlight_index :: json
  viewport_coordinates :: "CoordinateSet option"
  page_coordinates :: "CoordinateSet option"
  viewport_info :: ViewportInfo
  parent :: parent_ref

record DOMTree =
  root :: DOMElementNode
  children :: "DOMElementNode list"

record PageInfo =
  viewport_width :: int
  viewport_height :: int
  page_width :: int
  page_height :: int
  scroll_x :: int
  scroll_y :: int
  pixels_above :: int
  pixels_below :: int
  pixels_left :: int
  pixels_right :: int

record TabInfo =
  page_id :: int
  info_url :: string
  info_title :: string

text \<open>
  The validation of a field. An integer is accepted as it is by an integer field
  and a string by a string field; None is rejected by both. What the validation
  library makes of any other value (a boolean or a numeric string given to an
  integer field, for instance) is not in the sources: \<open>lax_int\<close> and \<open>lax_str\<close> are
  its conversions, with \<open>None\<close> for a value it rejects.
\<close>

record validation =
  lax_int :: "json \<Rightarrow> int option"
  lax_str :: "json \<Rightarrow> string option"

fun validate_int :: "validation \<Rightarrow> json \<Rightarrow> error + int" where
  "validate_int vd (JInt n) = Inr n"
| "validate_int vd JNull = Inl ValidationError"
| "validate_int vd v = (case lax_int vd v of None \<Rightarrow> Inl ValidationError | Some n \<Rightarrow> Inr n)"

fun validate_str :: "validation \<Rightarrow> json \<Rightarrow> error + string" where
  "validate_str vd (JStr t) = Inr t"
| "validate_str vd JNull = Inl ValidationError"
| "validate_str vd v = (case lax_str vd v of None \<Rightarrow> Inl ValidationError | Some t \<Rightarrow> Inr t)"

text \<open>\<^verbatim>\<open>PageInfo(...)\<close>: the constructor raises when any of the ten values is
  rejected.\<close>

definition make_page_info ::
  "validation \<Rightarrow> json \<Rightarrow> json \<Rightarrow> json \<Rightarrow> json \<Rightarrow> json \<Rightarrow> json \<Rightarrow> json \<Rightarrow> json \<Rightarrow> json \<Rightarrow> json
     \<Rightarrow> error + PageInfo" where
  "make_page_info vd vw vh pw ph sx sy pa pb pl pr =
     ebind (validate_int vd vw) (\<lambda>vw'.
     ebind (validate_int vd vh) (\<lambda>vh'.
     ebind (validate_int vd pw) (\<lambda>pw'.
     ebind (validate_int vd ph) (\<lambda>ph'.
     ebind (validate_int vd sx) (\<lambda>sx'.
     ebind (validate_int vd sy) (\<lambda>sy'.
     ebind (validate_int vd pa) (\<lambda>pa'.
     ebind (validate_int vd pb) (\<lambda>pb'.
     ebind (validate_int vd pl) (\<lambda>pl'.
     ebind (validate_int vd pr) (\<lambda>pr'.
       Inr \<lparr>viewport_width = vw', viewport_height = vh',
            page_width = pw', page_height = ph',
            scroll_x = sx', scroll_y = sy',
            pixels_above = pa', pixels_below = pb',
            pixels_left = pl', pixels_right = pr'\<rparr>))))))))))"

text \<open>\<^verbatim>\<open>TabInfo(page_id=1, url=..., title=...)\<close>.\<close>

definition make_tab_info :: "validation \<Rightarrow> json \<Rightarrow> json \<Rightarrow> error + TabInfo" where
  "make_tab_info vd u t =
     ebind (validate_str vd u) (\<lambda>u'.
     ebind (validate_str vd t) (\<lambda>t'.
       Inr \<lparr>page_id = 1, info_url = u', info_title = t'\<rparr>))"

type_synonym SelectorMap = "(json \<times> DOMElementNode) list"

record BrowserStateSummary =
  element_tree :: "DOMTree option"
  selector_map :: SelectorMap
  url :: json
  title :: json
  tabs :: "TabInfo list"
  page_info :: PageInfo
  summary_pixels_above :: json
  summary_pixels_below :: json

text \<open>
  A \<^verbatim>\<open>SelectorMap\<close> is a Python dictionary: an association list in insertion
  order. Storing under a key that is already present (equal by \<^verbatim>\<open>==\<close>) replaces
  the value in place; a list or a dictionary is not hashable and cannot be a key.
\<close>

fun hashable :: "json \<Rightarrow> bool" where
  "hashable (JList xs) = False"
| "hashable (JObj kvs) = False"
| "hashable _ = True"

fun dict_update :: "json \<Rightarrow> 'v \<Rightarrow> (json \<times> 'v) list \<Rightarrow> (json \<times> 'v) list" where
  "dict_update k v [] = [(k, v)]"
| "dict_update k v ((k', v') # m) =
     (if py_eq k' k then (k', v) # m else (k', v') # dict_update k v m)"

definition dict_set :: "json \<Rightarrow> 'v \<Rightarrow> (json \<times> 'v) list \<Rightarrow> error + (json \<times> 'v) list" where
  "dict_set k v m = (if hashable k then Inr (dict_update k v m) else Inl TypeError)"

text \<open>\<^verbatim>\<open>m.get(k)\<close> with a hashable key.\<close>

fun dict_get :: "json \<Rightarrow> (json \<times> 'v) list \<Rightarrow> 'v option" where
  "dict_get k [] = None"
| "dict_get k ((k', v') # m) = (if py_eq k' k then Some v' else dict_get k m)"

text \<open>
  The texts that Python computes outside the sources: \<open>repr_json\<close> is \<^verbatim>\<open>str\<close> of a
  list or a dictionary, \<open>repr_node\<close> is \<^verbatim>\<open>str\<close> of a \<^verbatim>\<open>DOMElementNode\<close>, and
  \<open>builtin_message\<close> is \<^verbatim>\<open>str(e)\<close> of an exception raised by the interpreter.
\<close>

record renderer =
  repr_json :: "json \<Rightarrow> string"
  repr_node :: "DOMElementNode \<Rightarrow> string"
  builtin_message :: "error \<Rightarrow> string"

text \<open>\<^verbatim>\<open>str(v)\<close>, as an f-string interpolates a value.\<close>

fun py_str :: "renderer \<Rightarrow> json \<Rightarrow> string" where
  "py_str rp JNull = ''None''"
| "py_str rp (JBool b) = (if b then ''True'' else ''False'')"
| "py_str rp (JInt n) = show_int n"
| "py_str rp (JStr s) = s"
| "py_str rp v = repr_json rp v"

text \<open>\<^verbatim>\<open>str(e)\<close> of an exception.\<close>

fun str_error :: "renderer \<Rightarrow> error \<Rightarrow> string" where
  "str_error rp (PyException m) = m"
| "str_error rp (BrowserError m) = m"
| "str_error rp e = builtin_message rp e"


section \<open>BridgeSession: reconstruction of the browser state\<close>

text \<open>
  The mock page (\<open>page_title\<close> is its \<^verbatim>\<open>_title\<close>) and the attributes of the
  session that the reconstruction reads and writes.
\<close>

record MockPage =
  page_url :: json
  page_title :: json

record BridgeSession =
  current_url :: json
  tab_infos :: json
  agent_current_page :: "MockPage option"

definition create_mock_page :: MockPage where
  "create_mock_page = \<lparr>page_url = JStr ''about:blank'', page_title = JStr []\<rparr>"

text \<open>An exception raised while the session is in state \<open>s\<close> leaves that state.\<close>

definition sbind :: "error + 'a \<Rightarrow> 's \<Rightarrow> ('a \<Rightarrow> (error + 'b) \<times> 's) \<Rightarrow> (error + 'b) \<times> 's" where
  "sbind m s f = (case m of Inl e \<Rightarrow> (Inl e, s) | Inr v \<Rightarrow> f v)"

text \<open>Lines 285 to 292: the default navigation when no current URL is known.\<close>

definition ensure_start_url :: "bridge_link \<Rightarrow> BridgeSession \<Rightarrow> error + BridgeSession" where
  "ensure_start_url b s =
     (if \<not> truthy (current_url s) \<or> py_eq (current_url s) (JStr ''about:blank'') then
        ebind (navigate b (JStr ''https://www.google.com'')) (\<lambda>nav_result.
          ebind (py_get nav_result ''success'' JNull) (\<lambda>ok.
            Inr (if truthy ok then s\<lparr>current_url := JStr ''https://www.google.com''\<rparr> else s)))
      else Inr s)"

text \<open>Lines 311 to 314: the four dimensions, with \<^verbatim>\<open>or\<close> for the fallbacks.\<close>

definition actual_viewport_width :: "(string \<times> json) list \<Rightarrow> json" where
  "actual_viewport_width viewport = py_or (get_default viewport ''width'' JNull) (JInt 1920)"

definition actual_viewport_height :: "(string \<times> json) list \<Rightarrow> json" where
  "actual_viewport_height viewport = py_or (get_default viewport ''height'' JNull) (JInt 1080)"

definition actual_page_width :: "(string \<times> json) list \<Rightarrow> (string \<times> json) list \<Rightarrow> json" where
  "actual_page_width viewport page =
     py_or (get_default page ''width'' JNull) (actual_viewport_width viewport)"

definition actual_page_height :: "(string \<times> json) list \<Rightarrow> (string \<times> json) list \<Rightarrow> json" where
  "actual_page_height viewport page =
     py_or (get_default page ''height'' JNull) (actual_viewport_height viewport)"

text \<open>A raw dimension that is an integer, or falsy.\<close>

fun int_or_falsy :: "json \<Rightarrow> bool" where
  "int_or_falsy (JInt n) = True"
| "int_or_falsy v = (\<not> truthy v)"

text \<open>Lines 305 to 330: the page metrics. The three sub-objects must be
  dictionaries; the four dimensions and the scroll and overflow values, the
  latter with the defaults of \<^verbatim>\<open>get\<close>, go through the constructor of
  \<^verbatim>\<open>PageInfo\<close>.\<close>

fun parse_page_info :: "validation \<Rightarrow> json \<Rightarrow> json \<Rightarrow> json \<Rightarrow> error + PageInfo" where
  "parse_page_info vd (JObj viewport) (JObj page) (JObj pixels) =
     make_page_info vd
       (actual_viewport_width viewport)
       (actual_viewport_height viewport)
       (actual_page_width viewport page)
       (actual_page_height viewport page)
       (get_default viewport ''scrollX'' (JInt 0))
       (get_default viewport ''scrollY'' (JInt 0))
       (get_default pixels ''above'' (JInt 0))
       (get_default pixels ''below'' (JInt 0))
       (get_default pixels ''left'' (JInt 0))
       (get_default pixels ''right'' (JInt 0))"
| "parse_page_info vd _ _ _ = Inl AttributeError"

text \<open>One corner: \<^verbatim>\<open>Coordinates(x=vc[name]['x'], y=vc[name]['y'])\<close>.\<close>

definition make_coordinates :: "json \<Rightarrow> string \<Rightarrow> error + Coordinates" where
  "make_coordinates vc name =
     ebind (py_item vc name) (\<lambda>p.
       ebind (py_item p ''x'') (\<lambda>px.
         ebind (py_item p ''y'') (\<lambda>py.
           Inr \<lparr>coord_x = px, coord_y = py\<rparr>)))"

definition make_coordinate_set :: "json \<Rightarrow> error + CoordinateSet" where
  "make_coordinate_set vc =
     ebind (make_coordinates vc ''top_left'') (\<lambda>tl.
       ebind (make_coordinates vc ''top_right'') (\<lambda>tr.
         ebind (make_coordinates vc ''bottom_left'') (\<lambda>bl.
           ebind (make_coordinates vc ''bottom_right'') (\<lambda>br.
             ebind (make_coordinates vc ''center'') (\<lambda>ce.
               ebind (py_item vc ''width'') (\<lambda>w.
                 ebind (py_item vc ''height'') (\<lambda>h.
                   Inr \<lparr>top_left = tl, top_right = tr, bottom_left = bl, bottom_right = br,
                        center = ce, set_width = w, set_height = h\<rparr>)))))))"

text \<open>A coordinate set is built only when the raw object is present and truthy.\<close>

definition optional_coordinate_set :: "json \<Rightarrow> error + CoordinateSet option" where
  "optional_coordinate_set raw =
     (if truthy raw then ebind (make_coordinate_set raw) (\<lambda>cs. Inr (Some cs)) else Inr None)"

text \<open>Lines 387 to 392: the viewport info of an element reads the raw viewport
  with the defaults of \<^verbatim>\<open>get\<close>.\<close>

definition element_viewport_info :: "json \<Rightarrow> error + ViewportInfo" where
  "element_viewport_info viewport =
     ebind (py_get viewport ''scrollX'' (JInt 0)) (\<lambda>sx.
       ebind (py_get viewport ''scrollY'' (JInt 0)) (\<lambda>sy.
         ebind (py_get viewport ''width'' (JInt 1920)) (\<lambda>w.
           ebind (py_get viewport ''height'' (JInt 1080)) (\<lambda>h.
             Inr \<lparr>scrollX = sx, scrollY = sy, info_width = w, info_height = h\<rparr>))))"

text \<open>
  Lines 351 to 411, one iteration of the loop without the store: the key
  \<^verbatim>\<open>element.get('index', 0)\<close> and the node. A raw element that is not a
  dictionary has no \<^verbatim>\<open>get\<close>.
\<close>

fun build_element :: "json \<Rightarrow> json \<Rightarrow> error + (json \<times> DOMElementNode)" where
  "build_element viewport (JObj element) =
     ebind (optional_coordinate_set (get_default element ''viewportCoordinates'' JNull))
       (\<lambda>viewport_coords.
     ebind (optional_coordinate_set (get_default element ''pageCoordinates'' JNull))
       (\<lambda>page_coords.
     ebind (element_viewport_info viewport) (\<lambda>vinfo.
       Inr (get_default element ''index'' (JInt 0),
            \<lparr>tag_name = get_default element ''tagName'' (JStr ''div''),
             xpath = get_default element ''xpath'' (JStr []),
             attributes = get_default element ''attributes'' (JObj []),
             is_visible = get_default element ''isVisible'' (JBool True),
             is_interactive = get_default element ''isInteractive'' (JBool False),
             is_top_element = get_default element ''isTopElement'' (JBool False),
             is_in_viewport = get_default element ''isInViewport'' (JBool False),
             shadow_root = get_default element ''shadowRoot'' (JBool False),
             highlight_index = get_default element ''index'' JNull,
             viewport_coordinates = viewport_coords,
             page_coordinates = page_coords,
             viewport_info = vinfo,
             parent = NoParent\<rparr>))))"
| "build_element viewport _ = Inl AttributeError"

text \<open>One iteration: build the node and store it under its key.\<close>

definition selector_step :: "json \<Rightarrow> json \<Rightarrow> SelectorMap \<Rightarrow> error + SelectorMap" where
  "selector_step viewport element m =
     ebind (build_element viewport element) (\<lambda>kn. dict_set (fst kn) (snd kn) m)"

text \<open>The loop over the raw elements.\<close>

fun build_selector_map :: "json \<Rightarrow> json list \<Rightarrow> SelectorMap \<Rightarrow> error + SelectorMap" where
  "build_selector_map viewport [] m = Inr m"
| "build_selector_map viewport (element # elements) m =
     ebind (selector_step viewport element m) (build_selector_map viewport elements)"

text \<open>\<^verbatim>\<open>self.agent_current_page.url = ...\<close> and \<^verbatim>\<open>.title = ...\<close>, on a fresh mock
  page when the session has none; the title setter stores \<^verbatim>\<open>value or ""\<close>.\<close>

definition update_mock_page :: "json \<Rightarrow> json \<Rightarrow> BridgeSession \<Rightarrow> BridgeSession" where
  "update_mock_page u t s =
     (let pg = (case agent_current_page s of None \<Rightarrow> create_mock_page | Some p \<Rightarrow> p)
      in s\<lparr>agent_current_page := Some (pg\<lparr>page_url := u, page_title := py_or t (JStr [])\<rparr>)\<rparr>)"

text \<open>Lines 439 to 454: the root element.\<close>

definition root_element :: "ViewportInfo \<Rightarrow> DOMElementNode" where
  "root_element vinfo =
     \<lparr>tag_name = JStr ''root'', xpath = JStr [], attributes = JObj [],
      is_visible = JBool True, is_interactive = JBool False, is_top_element = JBool True,
      is_in_viewport = JBool True, shadow_root = JBool False, highlight_index = JNull,
      viewport_coordinates = None, page_coordinates = None, viewport_info = vinfo,
      parent = NoParent\<rparr>"

text \<open>
  Lines 298 to 469: the branch taken when \<^verbatim>\<open>dom_result.get('success')\<close> is
  truthy. The nodes of the selector map are the children of the root, so the
  parent reference set on the children shows in the map as well. The viewport
  info of the root and the summary read the raw values again from the same
  dictionaries. \<^verbatim>\<open>PageInfo\<close> is built before the session takes the new URL,
  \<^verbatim>\<open>TabInfo\<close> after the loop over the elements.
\<close>

definition reconstruct ::
  "validation \<Rightarrow> json \<Rightarrow> BridgeSession
     \<Rightarrow> (error + BrowserStateSummary) \<times> BridgeSession" where
  "reconstruct vd dom_result s =
     sbind (py_get dom_result ''result'' (JObj [])) s (\<lambda>dom_data.
       case dom_data of
         JObj d \<Rightarrow>
           sbind (py_len (get_default d ''elements'' (JList []))) s (\<lambda>_.
             let s1 = s\<lparr>tab_infos := get_default d ''tabs'' (JList [])\<rparr>;
                 viewport = get_default d ''viewport'' (JObj []);
                 page = get_default d ''page'' (JObj []);
                 pixels = get_default d ''pixels'' (JObj [])
             in sbind (parse_page_info vd viewport page pixels) s1 (\<lambda>pinfo.
               let current_url' =
                     get_default d ''url'' (py_or (current_url s1) (JStr ''about:blank''));
                   current_title = get_default d ''title'' (JStr []);
                   s2 = update_mock_page current_url' current_title
                          (s1\<lparr>current_url := current_url'\<rparr>)
               in sbind (py_iter (get_default d ''elements'' (JList []))) s2 (\<lambda>elements.
                 sbind (build_selector_map viewport elements []) s2 (\<lambda>m.
                   sbind (make_tab_info vd current_url' current_title) s2 (\<lambda>tab.
                     sbind (py_get viewport ''scrollX'' (JInt 0)) s2 (\<lambda>sx.
                       sbind (py_get viewport ''scrollY'' (JInt 0)) s2 (\<lambda>sy.
                         sbind (py_get viewport ''width'' JNull) s2 (\<lambda>w.
                           sbind (py_get viewport ''height'' JNull) s2 (\<lambda>h.
                             sbind (py_get pixels ''above'' (JInt 0)) s2 (\<lambda>pa.
                               sbind (py_get pixels ''below'' (JInt 0)) s2 (\<lambda>pb.
                                 let vinfo = \<lparr>scrollX = sx, scrollY = sy,
                                               info_width = py_or w (JInt 1920),
                                               info_height = py_or h (JInt 1080)\<rparr>;
                                     m' = map (\<lambda>kn. (fst kn,
                                                 (snd kn)\<lparr>parent := RootElement\<rparr>)) m
                                 in (Inr \<lparr>element_tree =
                                             Some \<lparr>root = root_element vinfo,
                                                   children = map snd m'\<rparr>,
                                           selector_map = m',
                                           url = current_url',
                                           title = current_title,
                                           tabs = [tab],
                                           page_info = pinfo,
                                           summary_pixels_above = pa,
                                           summary_pixels_below = pb\<rparr>,
                                     s2))))))))))))
       | _ \<Rightarrow> (Inl AttributeError, s))"

text \<open>The expression that the degraded path evaluates in the page (its line
  breaks and indentation are left out).\<close>

definition dimension_script :: string where
  "dimension_script =
     ''({ viewport: { width: window.visualViewport?.width || window.innerWidth, '' @
     ''height: window.visualViewport?.height || window.innerHeight }, '' @
     ''page: { width: Math.max(document.documentElement.scrollWidth, '' @
     ''document.body?.scrollWidth || 0), '' @
     ''height: Math.max(document.documentElement.scrollHeight, '' @
     ''document.body?.scrollHeight || 0) } })''"

text \<open>The four dimensions: viewport width and height, page width and height.\<close>

type_synonym dimensions = "json \<times> json \<times> json \<times> json"

definition default_dimensions :: dimensions where
  "default_dimensions = (JInt 1920, JInt 1080, JInt 1920, JInt 1080)"

text \<open>Lines 493 to 504: the body of the \<^verbatim>\<open>try\<close> after the evaluation.\<close>

definition read_dimensions :: "json \<Rightarrow> error + dimensions" where
  "read_dimensions dimension_result =
     ebind (py_get dimension_result ''success'' JNull) (\<lambda>ok.
       ebind (py_get dimension_result ''result'' JNull) (\<lambda>res.
         if truthy (py_and ok res) then
           ebind (py_item dimension_result ''result'') (\<lambda>dim_data.
             ebind (py_get dim_data ''viewport'' (JObj [])) (\<lambda>vp.
               ebind (py_get vp ''width'' (JInt 1920)) (\<lambda>vw.
                 ebind (py_get vp ''height'' (JInt 1080)) (\<lambda>vh.
                   ebind (py_get dim_data ''page'' (JObj [])) (\<lambda>pg.
                     ebind (py_get pg ''width'' vw) (\<lambda>pw.
                       ebind (py_get pg ''height'' vh) (\<lambda>ph.
                         Inr (vw, vh, pw, ph))))))))
         else Inr default_dimensions))"

text \<open>Lines 479 to 511: every exception of the \<^verbatim>\<open>try\<close> gives the defaults.\<close>

definition recovery_dimensions :: "bridge_link \<Rightarrow> dimensions" where
  "recovery_dimensions b =
     (case ebind (evaluate b dimension_script) read_dimensions of
        Inl e \<Rightarrow> default_dimensions
      | Inr dims \<Rightarrow> dims)"

text \<open>Lines 471 to 541: the branch taken when \<^verbatim>\<open>dom_result.get('success')\<close> is
  not truthy. The constructors of \<^verbatim>\<open>PageInfo\<close> and \<^verbatim>\<open>TabInfo\<close> come after the
  \<^verbatim>\<open>try\<close>: what they raise is not caught.\<close>

definition degraded_state ::
  "renderer \<Rightarrow> validation \<Rightarrow> bridge_link \<Rightarrow> json \<Rightarrow> BridgeSession
     \<Rightarrow> (error + BrowserStateSummary) \<times> BridgeSession" where
  "degraded_state rp vd b dom_result s =
     sbind (py_get dom_result ''error'' (JStr ''Unknown error'')) s (\<lambda>error_msg.
       let error_url = py_or (current_url s) (JStr ''about:blank'');
           error_title = JStr (''Bridge Error: '' @ py_str rp error_msg)
       in (case recovery_dimensions b of
             (vw, vh, pw, ph) \<Rightarrow>
               sbind (make_page_info vd vw vh pw ph (JInt 0) (JInt 0)
                        (JInt 0) (JInt 0) (JInt 0) (JInt 0)) s (\<lambda>pinfo.
                 sbind (make_tab_info vd error_url error_title) s (\<lambda>tab.
                   (Inr \<lparr>element_tree = None,
                         selector_map = [],
                         url = error_url,
                         title = error_title,
                         tabs = [tab],
                         page_info = pinfo,
                         summary_pixels_above = JInt 0,
                         summary_pixels_below = JInt 0\<rparr>,
                    s)))))"

text \<open>\<^verbatim>\<open>BridgeSession.get_browser_state_with_recovery\<close>.\<close>

definition get_browser_state_with_recovery ::
  "renderer \<Rightarrow> validation \<Rightarrow> bridge_link \<Rightarrow> BridgeSession
     \<Rightarrow> (error + BrowserStateSummary) \<times> BridgeSession" where
  "get_browser_state_with_recovery rp vd b s =
     (if \<not> link_connected b then
        (Inl (PyException
           ''Bridge extension not connected. Please install and connect the extension.''), s)
      else
        sbind (ensure_start_url b s) s (\<lambda>s1.
          sbind (get_dom b) s1 (\<lambda>dom_result.
            sbind (py_get dom_result ''success'' JNull) s1 (\<lambda>ok.
              if truthy ok then reconstruct vd dom_result s1
              else degraded_state rp vd b dom_result s1))))"


text \<open>\<^verbatim>\<open>get_selector_map\<close> and \<^verbatim>\<open>get_dom_element_by_index\<close>.\<close>

definition get_selector_map ::
  "renderer \<Rightarrow> validation \<Rightarrow> bridge_link \<Rightarrow> BridgeSession
     \<Rightarrow> (error + SelectorMap) \<times> BridgeSession" where
  "get_selector_map rp vd b s =
     (case get_browser_state_with_recovery rp vd b s of
        (Inl e, s') \<Rightarrow> (Inl e, s')
      | (Inr state, s') \<Rightarrow> (Inr (selector_map state), s'))"

definition get_dom_element_by_index ::
  "renderer \<Rightarrow> validation \<Rightarrow> bridge_link \<Rightarrow> BridgeSession \<Rightarrow> int
     \<Rightarrow> (error + DOMElementNode option) \<times> BridgeSession" where
  "get_dom_element_by_index rp vd b s index =
     (case get_selector_map rp vd b s of
        (Inl e, s') \<Rightarrow> (Inl e, s')
      | (Inr m, s') \<Rightarrow> (Inr (dict_get (JInt index) m), s'))"

text \<open>
  \<^verbatim>\<open>BridgeSession._click_element_node\<close>. A \<^verbatim>\<open>DOMElementNode\<close> has the attribute
  \<^verbatim>\<open>highlight_index\<close>, so the test is whether it is None. The exceptions raised
  inside the \<^verbatim>\<open>try\<close> are logged and raised again unchanged.
\<close>

definition click_element_node ::
  "renderer \<Rightarrow> bridge_link \<Rightarrow> DOMElementNode \<Rightarrow> error + unit" where
  "click_element_node rp b element_node =
     (if highlight_index element_node \<noteq> JNull then
        ebind (click b JNull JNull (highlight_index element_node)) (\<lambda>result.
          ebind (py_get result ''success'' (JBool False)) (\<lambda>ok.
            ebind (py_get result ''clicked'' (JBool False)) (\<lambda>clicked.
              if truthy (py_and ok clicked) then Inr ()
              else
                ebind (py_get result ''error'' (JStr ''unknown error'')) (\<lambda>err.
                  Inl (PyException
                    (''Click failed for element '' @ py_str rp (highlight_index element_node)
                       @ '': '' @ py_str rp err))))))
      else
        Inl (PyException (''Element missing highlight_index: '' @ repr_node rp element_node)))"

text \<open>
  \<^verbatim>\<open>BridgeSession._input_text_element_node\<close>: it returns the value of
  \<^verbatim>\<open>success\<close>, or False; a failed click or a failed typing is logged, not
  raised.
\<close>

definition input_text_element_node ::
  "bridge_link \<Rightarrow> DOMElementNode \<Rightarrow> json \<Rightarrow> error + json" where
  "input_text_element_node b element_node text =
     (if highlight_index element_node \<noteq> JNull then
        ebind (click b JNull JNull (highlight_index element_node)) (\<lambda>click_result.
          ebind (py_get click_result ''success'' (JBool False)) (\<lambda>focused.
            if truthy focused then
              ebind (type_text b text) (\<lambda>type_result.
                ebind (py_get type_result ''success'' (JBool False)) (\<lambda>ok.
                  ebind (py_get type_result ''typed'' (JBool False)) (\<lambda>typed.
                    Inr (py_and ok typed))))
            else Inr (JBool False)))
      else Inr (JBool False))"


section \<open>The tabs property\<close>

text \<open>
  \<^verbatim>\<open>BridgeSession.tabs\<close>: one \<^verbatim>\<open>BridgePageProxy\<close> for each tab descriptor stored
  by the last successful reconstruction, or, when there is none and the session
  has a mock page, a single \<^verbatim>\<open>CurrentPageProxy\<close> of that page.
\<close>

definition tab_of_info :: "json \<Rightarrow> error + page_proxy" where
  "tab_of_info tab_info =
     ebind (py_get tab_info ''id'' JNull) (\<lambda>i.
       ebind (py_get tab_info ''url'' (JStr [])) (\<lambda>u.
         ebind (py_get tab_info ''title'' (JStr [])) (\<lambda>t.
           Inr (bridge_tab i u t))))"

fun tabs_of_infos :: "json list \<Rightarrow> error + page_proxy list" where
  "tabs_of_infos [] = Inr []"
| "tabs_of_infos (tab_info # infos) =
     ebind (tab_of_info tab_info) (\<lambda>p.
       ebind (tabs_of_infos infos) (\<lambda>ps. Inr (p # ps)))"

definition session_tabs :: "BridgeSession \<Rightarrow> error + page_proxy list" where
  "session_tabs s =
     ebind (py_iter (tab_infos s)) (\<lambda>infos.
       ebind (tabs_of_infos infos) (\<lambda>tabs_list.
         case agent_current_page s of
           Some pg \<Rightarrow>
             if tabs_list = [] then Inr [current_tab (page_url pg) (page_title pg)]
             else Inr tabs_list
         | None \<Rightarrow> Inr tabs_list))"


section \<open>The action wrappers\<close>

text \<open>
  The two actions of \<^verbatim>\<open>enhanced_actions.py\<close>, from the looked-up element on.
  \<^verbatim>\<open>ActionResult\<close> is declared outside the sources; the model keeps the index
  and the detection flag that its texts are built from. The DOM snapshots taken
  before and after the action never raise; what they feed is a parameter:
  \<open>dom_changed\<close> is the outcome of \<^verbatim>\<open>_detect_dom_changes\<close>, which may raise, and
  \<open>autocomplete_detected\<close> the result of \<^verbatim>\<open>_detect_autocomplete\<close>, which catches
  its exceptions.
\<close>

record ActionResult =
  action_index :: int
  detected :: bool

definition enhanced_click_element ::
  "renderer \<Rightarrow> bridge_link \<Rightarrow> int \<Rightarrow> DOMElementNode option \<Rightarrow> error + bool
     \<Rightarrow> error + ActionResult" where
  "enhanced_click_element rp b index element_node dom_changed =
     (case element_node of
        None \<Rightarrow>
          Inl (PyException (''Element index '' @ show_int index
                 @ '' does not exist - retry or use alternative actions''))
      | Some node \<Rightarrow>
          (case ebind (click_element_node rp b node) (\<lambda>_. dom_changed) of
             Inl e \<Rightarrow>
               Inl (BrowserError (''Failed to click element '' @ show_int index @ '': ''
                      @ str_error rp e))
           | Inr changed \<Rightarrow> Inr \<lparr>action_index = index, detected = changed\<rparr>))"

definition enhanced_input_text ::
  "renderer \<Rightarrow> bridge_link \<Rightarrow> int \<Rightarrow> json \<Rightarrow> DOMElementNode option \<Rightarrow> bool
     \<Rightarrow> error + ActionResult" where
  "enhanced_input_text rp b index text element_node autocomplete_detected =
     (case element_node of
        None \<Rightarrow>
          Inl (PyException (''Element index '' @ show_int index
                 @ '' does not exist - retry or use alternative actions''))
      | Some node \<Rightarrow>
          (case input_text_element_node b node text of
             Inl e \<Rightarrow>
               Inl (BrowserError (''Failed to input text into element '' @ show_int index
                      @ '': '' @ str_error rp e))
           | Inr _ \<Rightarrow> Inr \<lparr>action_index = index, detected = autocomplete_detected\<rparr>))"


section \<open>Concrete inputs\<close>

text \<open>A renderer, a link that answers each method with a fixed outcome, and a
  session that knows its URL.\<close>

definition plain_renderer :: renderer where
  "plain_renderer =
     \<lparr>repr_json = (\<lambda>v. ''<json>''), repr_node = (\<lambda>n. ''<node>''),
      builtin_message = (\<lambda>e. ''<error>'')\<rparr>"

text \<open>
  A validation in the manner of the lax mode of the library: an integer field
  takes a boolean as 0 or 1 and a string of decimal digits as the number it
  writes; a string field takes strings only.
\<close>

fun position :: "'a \<Rightarrow> 'a list \<Rightarrow> nat option" where
  "position x [] = None"
| "position x (y # ys) = (if x = y then Some 0 else map_option Suc (position x ys))"

definition digit_of :: "char \<Rightarrow> nat option" where
  "digit_of c = position c ''0123456789''"

fun read_digits :: "string \<Rightarrow> nat \<Rightarrow> nat option" where
  "read_digits [] acc = Some acc"
| "read_digits (c # cs) acc =
     (case digit_of c of None \<Rightarrow> None | Some d \<Rightarrow> read_digits cs (10 * acc + d))"

fun digits_or_bool :: "json \<Rightarrow> int option" where
  "digits_or_bool (JBool b) = Some (if b then 1 else 0)"
| "digits_or_bool (JStr t) = (if t = [] then None else map_option int (read_digits t 0))"
| "digits_or_bool _ = None"

definition lax_validation :: validation where
  "lax_validation = \<lparr>lax_int = digits_or_bool, lax_str = (\<lambda>v. None)\<rparr>"

definition fixed_link :: "(string \<times> (error + json)) list \<Rightarrow> bridge_link" where
  "fixed_link answers =
     \<lparr>link_connected = True,
      call = (\<lambda>method params.
        case map_of answers method of
          None \<Rightarrow> Inl (PyException ''Command timeout'')
        | Some outcome \<Rightarrow> outcome)\<rparr>"

definition visiting :: "string \<Rightarrow> BridgeSession" where
  "visiting u =
     \<lparr>current_url = JStr u, tab_infos = JList [],
      agent_current_page = Some \<lparr>page_url = JStr u, page_title = JStr []\<rparr>\<rparr>"

text \<open>The \<^verbatim>\<open>get_dom\<close> reply of the scenario of the specification.\<close>

definition scenario_reply :: json where
  "scenario_reply =
     JObj [(''success'', JBool True),
           (''result'', JObj
              [(''elements'', JList
                 [JObj [(''index'', JInt 3), (''tagName'', JStr ''a''),
                        (''xpath'', JStr ''/html/body/a''), (''isVisible'', JBool True)]]),
               (''viewport'', JObj [(''width'', JInt 800), (''height'', JInt 600)]),
               (''page'', JObj []),
               (''pixels'', JObj [])])]"


text \<open>Raw elements: two without an index and one with index 5.\<close>

definition raw_a :: json where
  "raw_a = JObj [(''tagName'', JStr ''a'')]"

definition raw_b :: json where
  "raw_b = JObj [(''tagName'', JStr ''b'')]"

definition raw_c :: json where
  "raw_c = JObj [(''tagName'', JStr ''c''), (''index'', JInt 5)]"

text \<open>A successful \<^verbatim>\<open>get_dom\<close> reply whose viewport and page report falsy
  dimensions.\<close>

definition zero_reply :: json where
  "zero_reply =
     JObj [(''success'', JBool True),
           (''result'', JObj
              [(''viewport'', JObj [(''width'', JInt 0), (''height'', JNull)]),
               (''page'', JObj [(''width'', JInt 0), (''height'', JInt 3000)])])]"

text \<open>A successful \<^verbatim>\<open>get_dom\<close> reply whose viewport reports the width as the
  string \<^verbatim>\<open>'0'\<close>.\<close>

definition string_zero_reply :: json where
  "string_zero_reply =
     JObj [(''success'', JBool True),
           (''result'', JObj [(''viewport'', JObj [(''width'', JStr ''0'')])])]"

text \<open>A link on which \<^verbatim>\<open>get_dom\<close> reports a failure and the recovery evaluation
  succeeds with a viewport whose width is null.\<close>

definition null_width_link :: bridge_link where
  "null_width_link =
     fixed_link
       [(''get_dom'', Inr (JObj [(''success'', JBool False)])),
        (''evaluate'', Inr (JObj
           [(''success'', JBool True),
            (''result'', JObj
               [(''viewport'', JObj [(''width'', JNull), (''height'', JInt 720)])])]))]"

text \<open>An element node with highlight index 3.\<close>

definition node_3 :: DOMElementNode where
  "node_3 =
     \<lparr>tag_name = JStr ''input'', xpath = JStr ''/html/body/input'', attributes = JObj [],
      is_visible = JBool True, is_interactive = JBool True, is_top_element = JBool True,
      is_in_viewport = JBool True, shadow_root = JBool False, highlight_index = JInt 3,
      viewport_coordinates = None, page_coordinates = None,
      viewport_info = \<lparr>scrollX = JInt 0, scrollY = JInt 0,
                        info_width = JInt 800, info_height = JInt 600\<rparr>,
      parent = RootElement\<rparr>"


section \<open>Properties of the correlator\<close>

lemma handle_message_absent:
  assumes "is_response_for cmd_id (Some data)" and "pending_commands c cmd_id = None"
  shows "handle_message data c = Inr c"
  using assms by (simp add: is_response_for_def handle_message_def ebind_def)

lemma on_frame_absent:
  assumes "is_response_for cmd_id f" and "pending_commands c cmd_id = None"
  shows "on_frame f c = c"
proof (cases f)
  case None
  with assms(1) show ?thesis by (simp add: is_response_for_def)
next
  case (Some data)
  with assms have h: "handle_message data c = Inr c"
    by (simp add: handle_message_absent)
  from Some assms(1) obtain kvs where "data = JObj kvs"
    by (cases data) (simp_all add: is_response_for_def)
  with Some h show ?thesis by (simp add: on_frame_def)
qed

lemma in_pending_key:
  "in_pending cmd_id p = Inr True \<Longrightarrow> cmd_id = JStr (key_of cmd_id)"
  by (cases cmd_id) simp_all

lemma handle_message_other:
  assumes "\<not> is_response_for cmd_id (Some data)" and "handle_message data c = Inr c'"
  shows "pending_commands c' cmd_id = pending_commands c cmd_id
         \<and> connected c' = connected c \<and> ws c' = ws c \<and> sent c' = sent c"
proof (cases data)
  case (JObj kvs)
  show ?thesis
  proof (cases "py_get data ''type'' JNull = Inr (JStr ''response'')")
    case False
    with assms(2) JObj show ?thesis
      by (auto simp: handle_message_def ebind_def split: if_splits)
  next
    case True
    with assms(1) have ne: "py_get data ''id'' JNull \<noteq> Inr (JStr cmd_id)"
      by (simp add: is_response_for_def)
    obtain i where i: "py_get data ''id'' JNull = Inr i"
      using JObj by simp
    show ?thesis
    proof (cases "in_pending i (pending_commands c) = Inr True")
      case False
      with assms(2) True i show ?thesis
        by (auto simp: handle_message_def ebind_def split: if_splits sum.splits)
    next
      case present: True
      then have "i = JStr (key_of i)" by (rule in_pending_key)
      with ne i have "key_of i \<noteq> cmd_id" by auto
      with assms(2) True i present JObj show ?thesis
        by (auto simp: handle_message_def ebind_def split: if_splits sum.splits)
    qed
  qed
qed (use assms(2) in \<open>simp_all add: handle_message_def ebind_def\<close>)

lemma on_frame_other:
  assumes "\<not> is_response_for cmd_id f"
  shows "pending_commands (on_frame f c) cmd_id = pending_commands c cmd_id
         \<and> connected (on_frame f c) = connected c \<and> ws (on_frame f c) = ws c
         \<and> sent (on_frame f c) = sent c"
proof (cases f)
  case None
  then show ?thesis by (simp add: on_frame_def)
next
  case (Some data)
  show ?thesis
  proof (cases "handle_message data c")
    case (Inl e)
    with Some show ?thesis by (simp add: on_frame_def split: sum.splits)
  next
    case (Inr c')
    from handle_message_other [OF _ Inr] assms Some
    have "pending_commands c' cmd_id = pending_commands c cmd_id
          \<and> connected c' = connected c \<and> ws c' = ws c \<and> sent c' = sent c"
      by simp
    with Some Inr show ?thesis by (simp add: on_frame_def split: sum.splits)
  qed
qed

lemma frames_other:
  assumes "\<forall>f \<in> set frames. \<not> is_response_for cmd_id f"
  shows "pending_commands (foldl (\<lambda>s f. on_frame f s) c frames) cmd_id
           = pending_commands c cmd_id"
  using assms
proof (induction frames arbitrary: c)
  case Nil
  then show ?case by simp
next
  case (Cons f frames)
  then show ?case by (simp add: on_frame_other)
qed

lemma on_frame_match:
  assumes "is_response_for cmd_id f" and "pending_commands c cmd_id = Some w"
  shows "pending_commands (on_frame f c) cmd_id
           = Some \<lparr>event = True, result = response_result f\<rparr>"
proof -
  from assms(1) obtain data where f: "f = Some data"
    by (cases f) (simp_all add: is_response_for_def)
  with assms(1) obtain kvs where data: "data = JObj kvs"
    by (cases data) (simp_all add: is_response_for_def)
  from assms f data show ?thesis
    by (simp add: is_response_for_def on_frame_def handle_message_def ebind_def
        response_result_def)
qed

lemma frames_resolve:
  assumes "pending_commands c cmd_id = Some w"
  shows "pending_commands (foldl (\<lambda>s f. on_frame f s) c frames) cmd_id
           = Some (case filter (is_response_for cmd_id) frames of
                     [] \<Rightarrow> w
                   | m # ms \<Rightarrow> \<lparr>event = True, result = response_result (last (m # ms))\<rparr>)"
  using assms
proof (induction frames arbitrary: c w)
  case Nil
  then show ?case by simp
next
  case (Cons f frames)
  show ?case
  proof (cases "is_response_for cmd_id f")
    case False
    with Cons.prems have "pending_commands (on_frame f c) cmd_id = Some w"
      by (simp add: on_frame_other)
    from Cons.IH [OF this] False show ?thesis by simp
  next
    case True
    from on_frame_match [OF True Cons.prems]
    have "pending_commands (on_frame f c) cmd_id
            = Some \<lparr>event = True, result = response_result f\<rparr>" .
    from Cons.IH [OF this] True show ?thesis
      by (simp split: list.splits)
  qed
qed

lemma send_command_delivered:
  assumes "connected c" and "ws c \<noteq> None"
  shows "pending_commands (snd (send_command c cmd_id meth params None frames overdue)) cmd_id
           = None"
proof -
  let ?c1 = "c\<lparr>pending_commands :=
                 (pending_commands c)(cmd_id \<mapsto> \<lparr>event = False, result = JNull\<rparr>)\<rparr>"
  let ?c2 = "?c1\<lparr>sent := sent ?c1 @ [command_envelope cmd_id meth params]\<rparr>"
  have "pending_commands ?c2 cmd_id = Some \<lparr>event = False, result = JNull\<rparr>" by simp
  from frames_resolve [OF this, of frames]
  obtain w where "pending_commands (foldl (\<lambda>s f. on_frame f s) ?c2 frames) cmd_id = Some w"
    by blast
  with assms show ?thesis
    by (auto simp add: send_command_def Let_def)
qed


subsection \<open>Timeout cleanup\<close>

text \<open>
  C2. A \<open>send_command\<close> call during whose wait no response frame with its id is
  handled before the deadline fires fails with the exception
  \<^verbatim>\<open>Exception("Command timeout")\<close>, whatever is handled between the deadline and
  the resumption of the sender; the id is absent from \<open>pending_commands\<close>
  afterwards; and a response frame with that id that is handled later leaves the
  controller exactly as it was.
\<close>

theorem send_command_timeout_cleanup:
  assumes "connected c" and "ws c \<noteq> None"
    and "\<forall>f \<in> set frames. \<not> is_response_for cmd_id f"
    and "is_response_for cmd_id late"
  shows "fst (send_command c cmd_id meth params None frames overdue)
           = Inl (PyException ''Command timeout'')
       \<and> pending_commands (snd (send_command c cmd_id meth params None frames overdue)) cmd_id
           = None
       \<and> on_frame late (snd (send_command c cmd_id meth params None frames overdue))
           = snd (send_command c cmd_id meth params None frames overdue)"
proof -
  let ?r = "send_command c cmd_id meth params None frames overdue"
  let ?c1 = "c\<lparr>pending_commands :=
                 (pending_commands c)(cmd_id \<mapsto> \<lparr>event = False, result = JNull\<rparr>)\<rparr>"
  let ?c2 = "?c1\<lparr>sent := sent ?c1 @ [command_envelope cmd_id meth params]\<rparr>"
  have "pending_commands (foldl (\<lambda>s f. on_frame f s) ?c2 frames) cmd_id
          = pending_commands ?c2 cmd_id"
    using assms(3) by (rule frames_other)
  then have w: "pending_commands (foldl (\<lambda>s f. on_frame f s) ?c2 frames) cmd_id
          = Some \<lparr>event = False, result = JNull\<rparr>"
    by simp
  from assms(1,2) w have failed: "fst ?r = Inl (PyException ''Command timeout'')"
    by (simp add: send_command_def Let_def)
  have gone: "pending_commands (snd ?r) cmd_id = None"
    using assms(1,2) by (rule send_command_delivered)
  from assms(4) gone have "on_frame late (snd ?r) = snd ?r"
    by (rule on_frame_absent)
  with failed gone show ?thesis by simp
qed

theorem send_command_timeout_cleanup_witness:
  "connected idle_controller \<and> ws idle_controller \<noteq> None
   \<and> \<not> is_response_for ''cmd-a'' (response_frame ''cmd-b'' (JInt 1))
   \<and> \<not> is_response_for ''cmd-a'' None
   \<and> is_response_for ''cmd-a'' (response_frame ''cmd-a'' (JInt 2))
   \<and> fst (send_command idle_controller ''cmd-a'' ''evaluate'' (JObj []) None
            [response_frame ''cmd-b'' (JInt 1), None] [response_frame ''cmd-a'' (JInt 3)])
       = Inl (PyException ''Command timeout'')
   \<and> pending_commands (snd (send_command idle_controller ''cmd-a'' ''evaluate'' (JObj []) None
            [response_frame ''cmd-b'' (JInt 1), None] [response_frame ''cmd-a'' (JInt 3)]))
        ''cmd-a'' = None
   \<and> on_frame (response_frame ''cmd-a'' (JInt 2))
        (snd (send_command idle_controller ''cmd-a'' ''evaluate'' (JObj []) None
            [response_frame ''cmd-b'' (JInt 1), None] [response_frame ''cmd-a'' (JInt 3)]))
       = snd (send_command idle_controller ''cmd-a'' ''evaluate'' (JObj []) None
            [response_frame ''cmd-b'' (JInt 1), None] [response_frame ''cmd-a'' (JInt 3)])"
proof -
  have h1: "connected idle_controller" and h2: "ws idle_controller \<noteq> None"
    by (simp_all add: idle_controller_def)
  have h3: "\<forall>f \<in> set [response_frame ''cmd-b'' (JInt 1), None]. \<not> is_response_for ''cmd-a'' f"
    by (simp add: is_response_for_def response_frame_def)
  have h4: "is_response_for ''cmd-a'' (response_frame ''cmd-a'' (JInt 2))"
    by (simp add: is_response_for_def response_frame_def)
  from send_command_timeout_cleanup [where meth = "''evaluate''" and params = "JObj []"
      and overdue = "[response_frame ''cmd-a'' (JInt 3)]", OF h1 h2 h3 h4] h1 h2 h3 h4
  show ?thesis by simp
qed


subsection \<open>Duplicate responses\<close>





section \<open>Properties of the tab proxies\<close>

subsection \<open>Equality\<close>

text \<open>
  C4, as stated, fails: \<^verbatim>\<open>BridgePageProxy.__eq__\<close> returns the comparison of the ids
  as soon as the other object has an id, so two proxies with different ids and the
  same url are not equal; and \<^verbatim>\<open>CurrentPageProxy.__eq__\<close> compares urls only, so two
  such proxies (both with id 1) with different urls are not equal.
\<close>

theorem proxy_eq_counterexample:
  "\<not> proxy_eq (bridge_tab (JStr ''A'') (JStr ''http://x'') (JStr ''t'')) (bridge_tab (JStr ''B'') (JStr ''http://x'') (JStr ''t''))
   \<and> \<not> proxy_eq (current_tab (JStr ''http://x'') (JStr ''t'')) (current_tab (JStr ''http://y'') (JStr ''t''))"
  by (simp add: proxy_eq_def BridgePageProxy_eq_def CurrentPageProxy_eq_def as_object_def
      bridge_tab_def current_tab_def)

text \<open>
  C4, amended. A \<^verbatim>\<open>BridgePageProxy\<close> is equal to another tab proxy exactly when
  their ids are equal, whatever the urls; it falls back to comparing urls only
  against an object that has no attribute \<^verbatim>\<open>id\<close>. A \<^verbatim>\<open>CurrentPageProxy\<close> is equal
  to another tab proxy exactly when their urls are equal, whatever the ids.
\<close>

theorem proxy_eq_rule:
  "(tab_class a = BridgePageProxy \<longrightarrow>
      proxy_eq a b = py_eq (tab_id a) (tab_id b)
      \<and> BridgePageProxy_eq a \<lparr>attr_id = None, attr_url = Some u\<rparr> = py_eq (tab_url a) u)
   \<and> (tab_class a = CurrentPageProxy \<longrightarrow> proxy_eq a b = py_eq (tab_url a) (tab_url b))"
  by (simp add: proxy_eq_def BridgePageProxy_eq_def CurrentPageProxy_eq_def as_object_def)

theorem proxy_eq_rule_witness:
  "proxy_eq (bridge_tab (JStr ''A'') (JStr ''http://x'') (JStr ''t'')) (bridge_tab (JStr ''A'') (JStr ''http://y'') (JStr ''t''))
   \<and> BridgePageProxy_eq (bridge_tab (JStr ''A'') (JStr ''http://x'') (JStr ''t''))
        \<lparr>attr_id = None, attr_url = Some (JStr ''http://x'')\<rparr>
   \<and> proxy_eq (current_tab (JStr ''http://x'') (JStr ''t'')) (bridge_tab (JStr ''B'') (JStr ''http://x'') (JStr ''t''))"
  using proxy_eq_rule [of "bridge_tab (JStr ''A'') (JStr ''http://x'') (JStr ''t'')"
      "bridge_tab (JStr ''A'') (JStr ''http://y'') (JStr ''t'')" "JStr ''http://x''"]
    proxy_eq_rule [of "current_tab (JStr ''http://x'') (JStr ''t'')"
      "bridge_tab (JStr ''B'') (JStr ''http://x'') (JStr ''t'')" "JNull"]
  by (simp add: bridge_tab_def current_tab_def)


subsection \<open>Closing a tab\<close>

text \<open>
  C8, as stated, fails: when \<^verbatim>\<open>send_command\<close> raises (here: the command times out
  on a connected controller that receives no frame), \<^verbatim>\<open>close\<close> logs the failure,
  returns, and the proxy is still not closed.
\<close>

theorem close_counterexample:
  "\<not> is_closed (close (link_of idle_controller ''cmd-a'' [])
                   (bridge_tab (JInt 7) (JStr ''http://x'') (JStr ''t'')))"
  by (simp add: is_closed_def close_def link_of_def send_command_def idle_controller_def
      bridge_tab_def Let_def)

text \<open>
  C8, amended. After \<^verbatim>\<open>close\<close> returns, \<^verbatim>\<open>is_closed\<close> is true whenever the
  \<^verbatim>\<open>close_tab\<close> command returned a result, whatever that result says (no success
  flag is read), and always for a \<^verbatim>\<open>CurrentPageProxy\<close>; when the command raises,
  a \<^verbatim>\<open>BridgePageProxy\<close> keeps the closed flag it had.
\<close>

theorem close_marks_closed:
  "(call b ''close_tab'' (JObj [(''tabId'', tab_id p)]) = Inr r \<longrightarrow> is_closed (close b p))
   \<and> (tab_class p = CurrentPageProxy \<longrightarrow> is_closed (close b p))
   \<and> (tab_class p = BridgePageProxy
        \<and> call b ''close_tab'' (JObj [(''tabId'', tab_id p)]) = Inl e
      \<longrightarrow> is_closed (close b p) = is_closed p)"
  by (cases "tab_class p") (simp_all add: is_closed_def close_def)

theorem close_marks_closed_witness:
  "call (link_of idle_controller ''cmd-a''
           [response_frame ''cmd-a'' (JObj [(''success'', JBool False)])])
        ''close_tab'' (JObj [(''tabId'', JInt 7)])
     = Inr (JObj [(''success'', JBool False)])
   \<and> is_closed (close (link_of idle_controller ''cmd-a''
                   [response_frame ''cmd-a'' (JObj [(''success'', JBool False)])])
                 (bridge_tab (JInt 7) (JStr ''http://x'') (JStr ''t'')))"
proof -
  let ?b = "link_of idle_controller ''cmd-a''
              [response_frame ''cmd-a'' (JObj [(''success'', JBool False)])]"
  have h: "call ?b ''close_tab'' (JObj [(''tabId'', JInt 7)])
             = Inr (JObj [(''success'', JBool False)])"
    by (simp add: link_of_def send_command_def idle_controller_def Let_def on_frame_def
        handle_message_def ebind_def response_frame_def)
  from close_marks_closed [of ?b "bridge_tab (JInt 7) (JStr ''http://x'') (JStr ''t'')"
      "JObj [(''success'', JBool False)]" "TypeError"] h
  show ?thesis by (simp add: bridge_tab_def)
qed

section \<open>Properties of the reconstruction\<close>

lemma get_default_map_of:
  "get_default kvs k d = (case map_of kvs k of None \<Rightarrow> d | Some v \<Rightarrow> v)"
  by (induction kvs) auto

lemma py_eq_refl: "hashable k \<Longrightarrow> py_eq k k"
  by (cases k) simp_all

lemma py_eq_sym: "py_eq a b \<Longrightarrow> hashable a \<Longrightarrow> py_eq b a"
  by (cases a; cases b) (simp_all split: if_splits)

lemma py_eq_trans: "py_eq a b \<Longrightarrow> py_eq b c \<Longrightarrow> hashable b \<Longrightarrow> py_eq a c"
  by (cases a; cases b; cases c) (simp_all split: if_splits)

lemma py_eq_hashable: "py_eq a b \<Longrightarrow> hashable a \<Longrightarrow> hashable b"
  by (cases a; cases b) simp_all

lemma dict_get_update_same: "py_eq k k \<Longrightarrow> dict_get k (dict_update k v m) = Some v"
  by (induction m) auto

lemma dict_get_update_other:
  assumes "\<not> py_eq k' k" and "hashable k'"
  shows "dict_get k (dict_update k' v m) = dict_get k m"
proof (induction m)
  case Nil
  from assms show ?case by simp
next
  case (Cons p m)
  obtain kk vv where p: "p = (kk, vv)" by (cases p)
  show ?case
  proof (cases "py_eq kk k'")
    case True
    have "\<not> py_eq kk k"
    proof
      assume "py_eq kk k"
      have "hashable kk"
        using True assms(2) by (cases kk; cases k') simp_all
      with True have "py_eq k' kk" using assms(2) py_eq_sym
        by (cases kk; cases k') (simp_all split: if_splits)
      from this \<open>py_eq kk k\<close> \<open>hashable kk\<close> have "py_eq k' k" by (rule py_eq_trans)
      with assms(1) show False by simp
    qed
    with True p show ?thesis by simp
  next
    case False
    with p Cons.IH show ?thesis by simp
  qed
qed

lemma build_append:
  "build_selector_map vp (xs @ ys) m
     = ebind (build_selector_map vp xs m) (build_selector_map vp ys)"
  by (induction xs arbitrary: m) (simp_all add: ebind_def split: sum.splits)

lemma selector_step_result:
  assumes "selector_step vp e m = Inr m'"
  obtains k n where "build_element vp e = Inr (k, n)" and "hashable k"
    and "m' = dict_update k n m"
  using assms
  by (auto simp: selector_step_def ebind_def dict_set_def split: sum.splits if_splits)

lemma build_preserves:
  assumes "build_selector_map vp es m = Inr m'"
    and "\<forall>e \<in> set es. \<forall>k' n'. build_element vp e = Inr (k', n') \<longrightarrow> \<not> py_eq k' k"
  shows "dict_get k m' = dict_get k m"
  using assms
proof (induction es arbitrary: m)
  case Nil
  then show ?case by simp
next
  case (Cons e es)
  from Cons.prems(1) obtain m1 where step: "selector_step vp e m = Inr m1"
    and rest: "build_selector_map vp es m1 = Inr m'"
    by (auto simp: ebind_def split: sum.splits)
  from step obtain k' n' where be: "build_element vp e = Inr (k', n')" and hk: "hashable k'"
    and m1: "m1 = dict_update k' n' m"
    by (rule selector_step_result)
  from Cons.prems(2) be have "\<not> py_eq k' k" by simp
  with hk m1 have "dict_get k m1 = dict_get k m" by (simp add: dict_get_update_other)
  moreover from Cons.IH [OF rest] Cons.prems(2) have "dict_get k m' = dict_get k m1" by simp
  ultimately show ?case by simp
qed

lemma build_element_missing_index:
  assumes "build_element vp (JObj element) = Inr (k, n)" and "map_of element ''index'' = None"
  shows "k = JInt 0 \<and> highlight_index n = JNull"
  using assms
  by (auto simp: ebind_def get_default_map_of split: sum.splits)

lemma build_split:
  assumes "build_selector_map vp (before @ e # after) m0 = Inr m"
  obtains m1 m2 where "build_selector_map vp before m0 = Inr m1"
    and "selector_step vp e m1 = Inr m2"
    and "build_selector_map vp after m2 = Inr m"
  using assms
  by (auto simp: build_append ebind_def split: sum.splits)

subsection \<open>The degraded path\<close>

text \<open>
  When the constructors of \<^verbatim>\<open>PageInfo\<close> and \<^verbatim>\<open>TabInfo\<close> accept what the recovery
  gives them, the degraded summary is returned: empty selector map, no element
  tree, the title \<^verbatim>\<open>Bridge Error: \<close> followed by the reported error text, and the
  current URL of the session or \<^verbatim>\<open>about:blank\<close>.
\<close>

lemma degraded_path_summary:
  assumes "link_connected b"
    and "ensure_start_url b s = Inr s1"
    and "get_dom b = Inr (JObj dom_result)"
    and "\<not> truthy (get_default dom_result ''success'' JNull)"
    and "recovery_dimensions b = (vw, vh, pw, ph)"
    and "make_page_info vd vw vh pw ph (JInt 0) (JInt 0) (JInt 0) (JInt 0) (JInt 0) (JInt 0)
           = Inr pinfo"
    and "validate_str vd (py_or (current_url s1) (JStr ''about:blank'')) = Inr u"
  shows "\<exists>summary.
           fst (get_browser_state_with_recovery rp vd b s) = Inr summary
           \<and> selector_map summary = []
           \<and> element_tree summary = None
           \<and> title summary =
               JStr (''Bridge Error: ''
                 @ py_str rp (get_default dom_result ''error'' (JStr ''Unknown error'')))
           \<and> url summary = py_or (current_url s1) (JStr ''about:blank'')
           \<and> page_info summary = pinfo"
  using assms
  by (simp add: get_browser_state_with_recovery_def sbind_def degraded_state_def Let_def
      make_tab_info_def ebind_def)

text \<open>
  C1 at a concrete input. \<^verbatim>\<open>get_dom\<close> reports a failure and the recovery
  evaluation succeeds with a viewport whose width is null. The \<^verbatim>\<open>try\<close> ends
  without an exception, with None as the viewport width; the constructor of
  \<^verbatim>\<open>PageInfo\<close>, which comes after the \<^verbatim>\<open>try\<close>, rejects it, and the call raises
  \<^verbatim>\<open>ValidationError\<close> instead of returning the degraded summary, whatever the
  validation makes of other values.
\<close>

theorem degraded_path_validation_error:
  "fst (get_browser_state_with_recovery rp vd null_width_link (visiting ''http://x''))
     = Inl ValidationError"
  by (simp add: get_browser_state_with_recovery_def sbind_def degraded_state_def Let_def
      null_width_link_def fixed_link_def visiting_def ensure_start_url_def get_dom_def
      recovery_dimensions_def evaluate_def read_dimensions_def ebind_def py_and_def py_or_def
      make_page_info_def)

subsection \<open>The scenario of the specification\<close>

text \<open>
  C6. When \<^verbatim>\<open>get_dom\<close> returns the reply of the scenario, on a session whose
  current URL is None or a string, the selector map has exactly the key 3, bound
  to the node with tag \<^verbatim>\<open>a\<close>, xpath \<^verbatim>\<open>/html/body/a\<close> and visible true; the page
  metrics are 800 by 600 for the viewport and, by fallback, for the page, and
  every scroll and overflow field is 0.
\<close>

theorem scenario_reconstruction:
  assumes "link_connected b"
    and "ensure_start_url b s = Inr s1"
    and "get_dom b = Inr scenario_reply"
    and "current_url s1 = JNull \<or> current_url s1 = JStr u"
  shows "\<exists>summary.
           fst (get_browser_state_with_recovery rp vd b s) = Inr summary
           \<and> selector_map summary =
               [(JInt 3,
                 \<lparr>tag_name = JStr ''a'', xpath = JStr ''/html/body/a'', attributes = JObj [],
                  is_visible = JBool True, is_interactive = JBool False,
                  is_top_element = JBool False, is_in_viewport = JBool False,
                  shadow_root = JBool False, highlight_index = JInt 3,
                  viewport_coordinates = None, page_coordinates = None,
                  viewport_info = \<lparr>scrollX = JInt 0, scrollY = JInt 0,
                                    info_width = JInt 800, info_height = JInt 600\<rparr>,
                  parent = RootElement\<rparr>)]
           \<and> page_info summary =
               \<lparr>viewport_width = 800, viewport_height = 600,
                page_width = 800, page_height = 600,
                scroll_x = 0, scroll_y = 0,
                pixels_above = 0, pixels_below = 0,
                pixels_left = 0, pixels_right = 0\<rparr>"
proof -
  note defs = get_browser_state_with_recovery_def sbind_def reconstruct_def
    scenario_reply_def Let_def py_or_def selector_step_def ebind_def
    optional_coordinate_set_def element_viewport_info_def dict_set_def
    make_page_info_def make_tab_info_def actual_viewport_width_def
    actual_viewport_height_def actual_page_width_def actual_page_height_def
  consider (none) "current_url s1 = JNull"
    | (empty) "current_url s1 = JStr []"
    | (known) "current_url s1 = JStr u" and "u \<noteq> []"
    using assms(4) by (cases "u = []") auto
  then show ?thesis
  proof cases
    case none
    with assms(1,2,3) show ?thesis by (simp add: defs)
  next
    case empty
    with assms(1,2,3) show ?thesis by (simp add: defs)
  next
    case known
    with assms(1,2,3) show ?thesis by (simp add: defs)
  qed
qed

theorem scenario_reconstruction_witness:
  "\<exists>summary.
     fst (get_browser_state_with_recovery plain_renderer lax_validation
            (fixed_link [(''get_dom'', Inr scenario_reply)]) (visiting ''http://x''))
       = Inr summary
     \<and> map fst (selector_map summary) = [JInt 3]
     \<and> viewport_width (page_info summary) = 800
     \<and> page_height (page_info summary) = 600"
proof -
  let ?b = "fixed_link [(''get_dom'', Inr scenario_reply)]"
  have h1: "link_connected ?b" by (simp add: fixed_link_def)
  have h2: "ensure_start_url ?b (visiting ''http://x'') = Inr (visiting ''http://x'')"
    by (simp add: ensure_start_url_def visiting_def)
  have h3: "get_dom ?b = Inr scenario_reply"
    by (simp add: get_dom_def fixed_link_def)
  have h4: "current_url (visiting ''http://x'') = JNull
      \<or> current_url (visiting ''http://x'') = JStr ''http://x''"
    by (simp add: visiting_def)
  from scenario_reconstruction [OF h1 h2 h3 h4, of plain_renderer lax_validation]
  show ?thesis by auto
qed

subsection \<open>Colliding selector indices\<close>

text \<open>
  C7. A raw element without \<^verbatim>\<open>index\<close> is keyed at 0. Storing never fails
  because the key is already present, and in the finished map a key is bound to
  the node of the last raw element that reported it: a later element silently
  replaces an earlier one.
\<close>

theorem selector_map_last_write_wins:
  assumes "build_selector_map viewport (before @ element # after) [] = Inr m"
    and "build_element viewport element = Inr (k, node)"
    and "\<forall>e \<in> set after. \<forall>k' n'. build_element viewport e = Inr (k', n') \<longrightarrow> \<not> py_eq k' k"
  shows "dict_get k m = Some node
       \<and> (\<forall>raw. element = JObj raw \<and> map_of raw ''index'' = None \<longrightarrow> k = JInt 0)
       \<and> (\<forall>m0. selector_step viewport element m0 = Inr (dict_update k node m0))"
proof -
  from assms(1) obtain m1 m2 where step: "selector_step viewport element m1 = Inr m2"
    and rest: "build_selector_map viewport after m2 = Inr m"
    by (rule build_split)
  from step assms(2) have hk: "hashable k" and m2: "m2 = dict_update k node m1"
    by (auto elim!: selector_step_result)
  from hk have "py_eq k k" by (rule py_eq_refl)
  with m2 have "dict_get k m2 = Some node" by (simp add: dict_get_update_same)
  moreover from rest assms(3) have "dict_get k m = dict_get k m2" by (rule build_preserves)
  ultimately have "dict_get k m = Some node" by simp
  moreover have "\<forall>raw. element = JObj raw \<and> map_of raw ''index'' = None \<longrightarrow> k = JInt 0"
    using assms(2) build_element_missing_index by blast
  moreover have "\<forall>m0. selector_step viewport element m0 = Inr (dict_update k node m0)"
    using hk assms(2) by (simp add: selector_step_def ebind_def dict_set_def)
  ultimately show ?thesis by simp
qed

theorem selector_map_last_write_wins_witness:
  "\<exists>m node.
     build_selector_map (JObj []) ([raw_a] @ raw_b # [raw_c]) [] = Inr m
     \<and> build_element (JObj []) raw_b = Inr (JInt 0, node)
     \<and> tag_name node = JStr ''b''
     \<and> dict_get (JInt 0) m = Some node
     \<and> map fst m = [JInt 0, JInt 5]"
proof -
  obtain node where b: "build_element (JObj []) raw_b = Inr (JInt 0, node)"
    and t: "tag_name node = JStr ''b''"
    by (simp add: raw_b_def ebind_def optional_coordinate_set_def element_viewport_info_def)
  obtain m where m: "build_selector_map (JObj []) ([raw_a] @ raw_b # [raw_c]) [] = Inr m"
    and ks: "map fst m = [JInt 0, JInt 5]"
    by (simp add: raw_a_def raw_b_def raw_c_def selector_step_def ebind_def dict_set_def
        optional_coordinate_set_def element_viewport_info_def)
  have later: "\<forall>e \<in> set [raw_c]. \<forall>k' n'.
      build_element (JObj []) e = Inr (k', n') \<longrightarrow> \<not> py_eq k' (JInt 0)"
    by (auto simp: raw_c_def ebind_def optional_coordinate_set_def element_viewport_info_def)
  from selector_map_last_write_wins [OF m b later]
  have "dict_get (JInt 0) m = Some node" by simp
  with b t m ks show ?thesis
    by (intro exI [of _ m] exI [of _ node]) simp
qed

lemma make_page_info_fields:
  assumes "make_page_info vd vw vh pw ph sx sy pa pb pl pr = Inr pinfo"
  shows "validate_int vd vw = Inr (viewport_width pinfo)"
    and "validate_int vd vh = Inr (viewport_height pinfo)"
    and "validate_int vd pw = Inr (page_width pinfo)"
    and "validate_int vd ph = Inr (page_height pinfo)"
  using assms
  by (auto simp: make_page_info_def ebind_def split: sum.splits)

lemma reconstruct_page_info:
  assumes "fst (reconstruct vd (JObj r) s) = Inr summary"
  obtains d where "get_default r ''result'' (JObj []) = JObj d"
    and "parse_page_info vd (get_default d ''viewport'' (JObj []))
           (get_default d ''page'' (JObj [])) (get_default d ''pixels'' (JObj []))
         = Inr (page_info summary)"
proof (cases "get_default r ''result'' (JObj [])")
  case (JObj d)
  with assms have "parse_page_info vd (get_default d ''viewport'' (JObj []))
      (get_default d ''page'' (JObj [])) (get_default d ''pixels'' (JObj []))
        = Inr (page_info summary)"
    by (auto simp: reconstruct_def sbind_def Let_def split: sum.splits)
  with JObj that show ?thesis by blast
qed (use assms in \<open>simp_all add: reconstruct_def sbind_def\<close>)

lemma parse_page_info_dims:
  assumes "parse_page_info vd (JObj v) (JObj p) pixels = Inr pinfo"
  shows "validate_int vd (actual_viewport_width v) = Inr (viewport_width pinfo)"
    and "validate_int vd (actual_viewport_height v) = Inr (viewport_height pinfo)"
    and "validate_int vd (actual_page_width v p) = Inr (page_width pinfo)"
    and "validate_int vd (actual_page_height v p) = Inr (page_height pinfo)"
  using assms
  by (cases pixels; simp add: make_page_info_fields)+

lemma or_default_int:
  assumes "validate_int vd (py_or raw (JInt n)) = Inr k"
  shows "\<not> truthy raw \<Longrightarrow> k = n"
    and "int_or_falsy raw \<Longrightarrow> n \<noteq> 0 \<Longrightarrow> k \<noteq> 0"
  using assms by (cases raw; auto simp: py_or_def split: if_splits)+

lemma or_fallback_int:
  assumes "validate_int vd (py_or raw fallback) = Inr k"
    and "validate_int vd fallback = Inr n"
  shows "\<not> truthy raw \<Longrightarrow> k = n"
    and "int_or_falsy raw \<Longrightarrow> n \<noteq> 0 \<Longrightarrow> k \<noteq> 0"
  using assms by (cases raw; auto simp: py_or_def split: if_splits)+

subsection \<open>Falsy dimensions\<close>

text \<open>
  C9, as stated, fails: a raw width that is the string \<^verbatim>\<open>'0'\<close> is truthy, so
  \<^verbatim>\<open>or\<close> keeps it, and a validation that reads a string of digits as its number
  makes it the integer 0 of the page metrics; the page width, which falls back to
  it, is 0 as well.
\<close>

theorem string_zero_counterexample:
  "\<not> isl (fst (reconstruct lax_validation string_zero_reply (visiting ''http://x'')))
   \<and> viewport_width (page_info (projr
        (fst (reconstruct lax_validation string_zero_reply (visiting ''http://x''))))) = 0
   \<and> page_width (page_info (projr
        (fst (reconstruct lax_validation string_zero_reply (visiting ''http://x''))))) = 0"
  by (simp add: reconstruct_def sbind_def Let_def py_or_def make_page_info_def
      make_tab_info_def ebind_def visiting_def string_zero_reply_def lax_validation_def
      digit_of_def actual_viewport_width_def actual_viewport_height_def
      actual_page_width_def actual_page_height_def)

text \<open>
  C9, amended. In a successful reconstruction a viewport width or height that is
  falsy (0, None, an empty value, or absent) is replaced by 1920 or 1080, and a
  falsy page width or height by the viewport dimension of the page metrics.
  When the raw viewport dimension is an integer or falsy, the viewport dimension
  of the metrics is not 0, and when the raw page dimension is so as well, neither
  is the page dimension. A truthy raw value that is not an integer goes to the
  validation of \<^verbatim>\<open>PageInfo\<close> as it is.
\<close>

theorem page_metrics_fallbacks:
  assumes "fst (reconstruct vd (JObj r) s) = Inr summary"
    and "get_default r ''result'' (JObj []) = JObj d"
    and "get_default d ''viewport'' (JObj []) = JObj v"
    and "get_default d ''page'' (JObj []) = JObj p"
  shows "(\<not> truthy (get_default v ''width'' JNull)
            \<longrightarrow> viewport_width (page_info summary) = 1920)
       \<and> (\<not> truthy (get_default v ''height'' JNull)
            \<longrightarrow> viewport_height (page_info summary) = 1080)
       \<and> (\<not> truthy (get_default p ''width'' JNull)
            \<longrightarrow> page_width (page_info summary) = viewport_width (page_info summary))
       \<and> (\<not> truthy (get_default p ''height'' JNull)
            \<longrightarrow> page_height (page_info summary) = viewport_height (page_info summary))
       \<and> (int_or_falsy (get_default v ''width'' JNull)
            \<longrightarrow> viewport_width (page_info summary) \<noteq> 0)
       \<and> (int_or_falsy (get_default v ''height'' JNull)
            \<longrightarrow> viewport_height (page_info summary) \<noteq> 0)
       \<and> (int_or_falsy (get_default v ''width'' JNull)
            \<and> int_or_falsy (get_default p ''width'' JNull)
            \<longrightarrow> page_width (page_info summary) \<noteq> 0)
       \<and> (int_or_falsy (get_default v ''height'' JNull)
            \<and> int_or_falsy (get_default p ''height'' JNull)
            \<longrightarrow> page_height (page_info summary) \<noteq> 0)"
proof -
  let ?pi = "page_info summary"
  from assms(1) obtain d' where "get_default r ''result'' (JObj []) = JObj d'"
    and "parse_page_info vd (get_default d' ''viewport'' (JObj []))
           (get_default d' ''page'' (JObj [])) (get_default d' ''pixels'' (JObj []))
         = Inr ?pi"
    by (rule reconstruct_page_info)
  with assms(2,3,4)
  have parsed: "parse_page_info vd (JObj v) (JObj p) (get_default d ''pixels'' (JObj []))
         = Inr ?pi"
    by simp
  have vw: "validate_int vd (py_or (get_default v ''width'' JNull) (JInt 1920))
         = Inr (viewport_width ?pi)"
    using parse_page_info_dims(1) [OF parsed] by (simp add: actual_viewport_width_def)
  have vh: "validate_int vd (py_or (get_default v ''height'' JNull) (JInt 1080))
         = Inr (viewport_height ?pi)"
    using parse_page_info_dims(2) [OF parsed] by (simp add: actual_viewport_height_def)
  have pw: "validate_int vd (py_or (get_default p ''width'' JNull)
              (py_or (get_default v ''width'' JNull) (JInt 1920)))
         = Inr (page_width ?pi)"
    using parse_page_info_dims(3) [OF parsed]
    by (simp add: actual_page_width_def actual_viewport_width_def)
  have ph: "validate_int vd (py_or (get_default p ''height'' JNull)
              (py_or (get_default v ''height'' JNull) (JInt 1080)))
         = Inr (page_height ?pi)"
    using parse_page_info_dims(4) [OF parsed]
    by (simp add: actual_page_height_def actual_viewport_height_def)
  show ?thesis
    using or_default_int [OF vw] or_default_int [OF vh]
      or_fallback_int [OF pw vw] or_fallback_int [OF ph vh]
    by simp
qed

theorem page_metrics_fallbacks_witness:
  "\<exists>summary.
     fst (reconstruct lax_validation zero_reply (visiting ''http://x'')) = Inr summary
     \<and> viewport_width (page_info summary) = 1920
     \<and> viewport_height (page_info summary) = 1080
     \<and> page_width (page_info summary) = 1920
     \<and> page_height (page_info summary) \<noteq> 0"
proof -
  obtain summary where
    h1: "fst (reconstruct lax_validation
               (JObj [(''success'', JBool True),
                 (''result'', JObj
                    [(''viewport'', JObj [(''width'', JInt 0), (''height'', JNull)]),
                     (''page'', JObj [(''width'', JInt 0), (''height'', JInt 3000)])])])
               (visiting ''http://x'')) = Inr summary"
    by (simp add: reconstruct_def sbind_def Let_def py_or_def make_page_info_def
        make_tab_info_def ebind_def visiting_def actual_viewport_width_def
        actual_viewport_height_def actual_page_width_def actual_page_height_def)
  have h2: "get_default
              [(''success'', JBool True),
               (''result'', JObj
                  [(''viewport'', JObj [(''width'', JInt 0), (''height'', JNull)]),
                   (''page'', JObj [(''width'', JInt 0), (''height'', JInt 3000)])])]
              ''result'' (JObj [])
            = JObj [(''viewport'', JObj [(''width'', JInt 0), (''height'', JNull)]),
                    (''page'', JObj [(''width'', JInt 0), (''height'', JInt 3000)])]"
    by simp
  have h3: "get_default
              [(''viewport'', JObj [(''width'', JInt 0), (''height'', JNull)]),
               (''page'', JObj [(''width'', JInt 0), (''height'', JInt 3000)])]
              ''viewport'' (JObj []) = JObj [(''width'', JInt 0), (''height'', JNull)]"
    by simp
  have h4: "get_default
              [(''viewport'', JObj [(''width'', JInt 0), (''height'', JNull)]),
               (''page'', JObj [(''width'', JInt 0), (''height'', JInt 3000)])]
              ''page'' (JObj []) = JObj [(''width'', JInt 0), (''height'', JInt 3000)]"
    by simp
  from page_metrics_fallbacks [OF h1 h2 h3 h4]
  have "viewport_width (page_info summary) = 1920
       \<and> viewport_height (page_info summary) = 1080
       \<and> page_width (page_info summary) = 1920
       \<and> page_height (page_info summary) \<noteq> 0"
    by simp
  with h1 show ?thesis by (simp add: zero_reply_def)
qed

lemma click_without_index:
  assumes "highlight_index node = JNull"
  shows "click_element_node rp b node
           = Inl (PyException (''Element missing highlight_index: '' @ repr_node rp node))"
  using assms by (simp add: click_element_node_def)

subsection \<open>Elements without an index\<close>

text \<open>
  C10. The node reconstructed from a raw element without \<^verbatim>\<open>index\<close> is stored
  under key 0 with \<^verbatim>\<open>highlight_index\<close> None. Clicking that node, before or after
  its parent reference is set, raises the exception whose message starts with
  \<^verbatim>\<open>Element missing highlight_index\<close>, whatever the bridge answers; and it is the
  node found under key 0 in the finished map unless a later element reports a key
  equal to 0.
\<close>

theorem missing_index_click_fails:
  assumes "build_selector_map viewport (before @ JObj raw # after) [] = Inr m"
    and "map_of raw ''index'' = None"
  shows "\<exists>m1 m2 node.
           build_selector_map viewport before [] = Inr m1
           \<and> selector_step viewport (JObj raw) m1 = Inr m2
           \<and> dict_get (JInt 0) m2 = Some node
           \<and> highlight_index node = JNull
           \<and> click_element_node rp b node
               = Inl (PyException (''Element missing highlight_index: '' @ repr_node rp node))
           \<and> click_element_node rp b (node\<lparr>parent := RootElement\<rparr>)
               = Inl (PyException (''Element missing highlight_index: ''
                        @ repr_node rp (node\<lparr>parent := RootElement\<rparr>)))
           \<and> ((\<forall>e \<in> set after. \<forall>k' n'.
                   build_element viewport e = Inr (k', n') \<longrightarrow> \<not> py_eq k' (JInt 0))
                \<longrightarrow> dict_get (JInt 0) m = Some node)"
proof -
  from assms(1) obtain m1 m2 where before: "build_selector_map viewport before [] = Inr m1"
    and step: "selector_step viewport (JObj raw) m1 = Inr m2"
    and rest: "build_selector_map viewport after m2 = Inr m"
    by (rule build_split)
  from step obtain k node where be: "build_element viewport (JObj raw) = Inr (k, node)"
    and m2: "m2 = dict_update k node m1"
    by (rule selector_step_result)
  from be assms(2) have k: "k = JInt 0" and hi: "highlight_index node = JNull"
    using build_element_missing_index by blast+
  from m2 k have stored: "dict_get (JInt 0) m2 = Some node"
    by (simp add: dict_get_update_same)
  have c1: "click_element_node rp b node
      = Inl (PyException (''Element missing highlight_index: '' @ repr_node rp node))"
    using hi by (rule click_without_index)
  have c2: "click_element_node rp b (node\<lparr>parent := RootElement\<rparr>)
      = Inl (PyException (''Element missing highlight_index: ''
               @ repr_node rp (node\<lparr>parent := RootElement\<rparr>)))"
    using hi by (simp add: click_without_index)
  have final: "(\<forall>e \<in> set after. \<forall>k' n'.
                   build_element viewport e = Inr (k', n') \<longrightarrow> \<not> py_eq k' (JInt 0))
                \<longrightarrow> dict_get (JInt 0) m = Some node"
    using build_preserves [OF rest] stored by simp
  from before step stored hi c1 c2 final show ?thesis by blast
qed

theorem missing_index_click_fails_witness:
  "\<exists>m node.
     build_selector_map (JObj []) ([raw_a] @ JObj [(''tagName'', JStr ''b'')] # [raw_c]) []
       = Inr m
     \<and> map_of [(''tagName'', JStr ''b'')] ''index'' = None
     \<and> dict_get (JInt 0) m = Some node
     \<and> highlight_index node = JNull
     \<and> click_element_node plain_renderer (fixed_link []) node
         = Inl (PyException ''Element missing highlight_index: <node>'')"
proof -
  obtain m where m: "build_selector_map (JObj [])
      ([raw_a] @ JObj [(''tagName'', JStr ''b'')] # [raw_c]) [] = Inr m"
    by (simp add: raw_a_def raw_c_def selector_step_def ebind_def dict_set_def
        optional_coordinate_set_def element_viewport_info_def)
  have i: "map_of [(''tagName'', JStr ''b'')] ''index'' = None" by simp
  have later: "\<forall>e \<in> set [raw_c]. \<forall>k' n'.
      build_element (JObj []) e = Inr (k', n') \<longrightarrow> \<not> py_eq k' (JInt 0)"
    by (auto simp: raw_c_def ebind_def optional_coordinate_set_def element_viewport_info_def)
  from missing_index_click_fails [OF m i, of plain_renderer "fixed_link []"] later
  obtain node where "dict_get (JInt 0) m = Some node" and "highlight_index node = JNull"
    and "click_element_node plain_renderer (fixed_link []) node
           = Inl (PyException (''Element missing highlight_index: ''
                    @ repr_node plain_renderer node))"
    by blast
  with m i show ?thesis
    by (intro exI [of _ m] exI [of _ node]) (simp add: plain_renderer_def)
qed

subsection \<open>Reported failures of click and type\<close>

lemma click_reported_failure:
  assumes "highlight_index node \<noteq> JNull"
    and "click b JNull JNull (highlight_index node) = Inr (JObj reply)"
    and "\<not> truthy (get_default reply ''clicked'' (JBool False))"
  shows "click_element_node rp b node
           = Inl (PyException
               (''Click failed for element '' @ py_str rp (highlight_index node) @ '': ''
                  @ py_str rp (get_default reply ''error'' (JStr ''unknown error''))))"
    and "enhanced_click_element rp b index (Some node) dom_changed
           = Inl (BrowserError
               (''Failed to click element '' @ show_int index @ '': ''
                  @ ''Click failed for element '' @ py_str rp (highlight_index node) @ '': ''
                  @ py_str rp (get_default reply ''error'' (JStr ''unknown error''))))"
  using assms
  by (simp_all add: click_element_node_def enhanced_click_element_def ebind_def py_and_def)

text \<open>
  C5 at a concrete input. A \<^verbatim>\<open>type\<close> reply with \<^verbatim>\<open>success\<close> true and
  \<^verbatim>\<open>typed\<close> false makes \<^verbatim>\<open>_input_text_element_node\<close> return False, and the
  action wrapper, which does not read that value, returns its result as for a
  successful input. The corresponding \<^verbatim>\<open>click\<close> reply makes the click wrapper
  raise an error that names the element and the reported reason.
\<close>

theorem type_failure_not_raised:
  "input_text_element_node
       (fixed_link
          [(''click'', Inr (JObj [(''success'', JBool True), (''clicked'', JBool True)])),
           (''type'', Inr (JObj [(''success'', JBool True), (''typed'', JBool False),
                                 (''error'', JStr ''target removed'')]))])
       node_3 (JStr ''hello'')
     = Inr (JBool False)
   \<and> enhanced_input_text plain_renderer
       (fixed_link
          [(''click'', Inr (JObj [(''success'', JBool True), (''clicked'', JBool True)])),
           (''type'', Inr (JObj [(''success'', JBool True), (''typed'', JBool False),
                                 (''error'', JStr ''target removed'')]))])
       3 (JStr ''hello'') (Some node_3) False
     = Inr \<lparr>action_index = 3, detected = False\<rparr>
   \<and> enhanced_click_element plain_renderer
       (fixed_link
          [(''click'', Inr (JObj [(''success'', JBool True), (''clicked'', JBool False),
                                  (''error'', JStr ''target removed'')]))])
       3 (Some node_3) (Inr False)
     = Inl (BrowserError
         ''Failed to click element 3: Click failed for element 3: target removed'')"
  by (simp add: input_text_element_node_def enhanced_input_text_def enhanced_click_element_def
      click_element_node_def click_def type_text_def fixed_link_def node_3_def ebind_def
      py_and_def show_int_def show_nat.simps)

end
